theory Spec2Isabelle
  imports Complex_Main
begin

section \<open>SQL values of \<^verbatim>\<open>database/schema.sql\<close>\<close>

text \<open>
  The store is PostgreSQL with PostGIS. A nullable column is an \<open>option\<close> (\<open>None\<close> is
  NULL). A statement that raises is a value \<open>Inl e\<close>; the table is then left as it was.
\<close>

datatype sql_error =
    numeric_field_overflow
  | integer_out_of_range
  | string_data_right_truncation
  | not_null_violation
  | unique_violation
  | undefined_function
  | mixed_srid
  | column_srid_mismatch

definition and_then :: "'e + 'a \<Rightarrow> ('a \<Rightarrow> 'e + 'b) \<Rightarrow> 'e + 'b" where
  "and_then m f = (case m of Inl e \<Rightarrow> Inl e | Inr x \<Rightarrow> f x)"

text \<open>
  A \<^verbatim>\<open>DECIMAL(p,s)\<close> value is a rational number; NUMERIC arithmetic (\<^verbatim>\<open>*\<close>, \<^verbatim>\<open>/\<close>) is
  exact on it, and assigning a value to a \<^verbatim>\<open>DECIMAL(p,s)\<close> column rounds it to \<open>s\<close>
  decimals, ties away from zero, and raises \<^verbatim>\<open>numeric field overflow\<close> when the rounded
  value needs more than \<open>p - s\<close> digits before the decimal point.
\<close>

definition round_half_away :: "rat \<Rightarrow> int" where
  "round_half_away x = (if 0 \<le> x then \<lfloor>x + 1 / 2\<rfloor> else - \<lfloor>- x + 1 / 2\<rfloor>)"

definition round_to_scale :: "nat \<Rightarrow> rat \<Rightarrow> rat" where
  "round_to_scale s x = of_int (round_half_away (x * 10 ^ s)) / 10 ^ s"

definition to_decimal :: "nat \<Rightarrow> nat \<Rightarrow> rat \<Rightarrow> sql_error + rat" where
  "to_decimal p s x =
     (let r = round_to_scale s x
      in if \<bar>r\<bar> < 10 ^ (p - s) then Inr r else Inl numeric_field_overflow)"

text \<open>
  Assigning a string to a \<^verbatim>\<open>VARCHAR(n)\<close> column raises when the string is longer than
  \<open>n\<close>, unless the excess characters are all spaces, which are then cut off. An
  \<^verbatim>\<open>INTEGER\<close> column holds 32-bit values. \<open>nullable\<close> lets NULL through.
\<close>

definition to_varchar :: "nat \<Rightarrow> string \<Rightarrow> sql_error + string" where
  "to_varchar n s =
     (if length s \<le> n then Inr s
      else if list_all (\<lambda>c. c = CHR '' '') (drop n s) then Inr (take n s)
      else Inl string_data_right_truncation)"

definition to_integer :: "int \<Rightarrow> sql_error + int" where
  "to_integer i =
     (if - (2 ^ 31) \<le> i \<and> i < 2 ^ 31 then Inr i else Inl integer_out_of_range)"

definition nullable :: "('a \<Rightarrow> sql_error + 'b) \<Rightarrow> 'a option \<Rightarrow> sql_error + 'b option" where
  "nullable f x =
     (case x of
        None \<Rightarrow> Inr None
      | Some v \<Rightarrow> (case f v of Inl e \<Rightarrow> Inl e | Inr w \<Rightarrow> Inr (Some w)))"

text \<open>
  A PostGIS geometry is its SRID and its shape; the shape of a point is \<open>XY x y\<close>.
  \<^verbatim>\<open>ST_Point(x, y)\<close> builds a point of SRID 0. \<^verbatim>\<open>ST_X\<close> and \<^verbatim>\<open>ST_Y\<close> return
  \<^verbatim>\<open>double precision\<close>, which is a type of its own beside \<^verbatim>\<open>NUMERIC\<close> (\<^verbatim>\<open>DECIMAL\<close>);
  both carry rationals here. A column \<^verbatim>\<open>GEOMETRY(POINT, 4326)\<close> takes geometries of
  SRID 4326 only.
\<close>

datatype xy = XY rat rat

datatype 'a geom = Geom (srid: nat) (shape: 'a)

datatype sql_number = Numeric rat | Float8 rat

definition ST_Point :: "rat \<Rightarrow> rat \<Rightarrow> xy geom" where
  "ST_Point x y = Geom 0 (XY x y)"

fun ST_X :: "xy geom \<Rightarrow> sql_number" where
  "ST_X (Geom s (XY x y)) = Float8 x"

fun ST_Y :: "xy geom \<Rightarrow> sql_number" where
  "ST_Y (Geom s (XY x y)) = Float8 y"

definition to_geometry_4326 :: "'a geom \<Rightarrow> sql_error + 'a geom" where
  "to_geometry_4326 g = (if srid g = 4326 then Inr g else Inl column_srid_mismatch)"

text \<open>
  \<^verbatim>\<open>ST_Within(a, b)\<close> raises \<^verbatim>\<open>Operation on mixed SRID geometries\<close> when the SRIDs of its
  arguments differ; otherwise it decides containment of the shapes, which is the
  parameter \<open>st_within\<close> wherever it is called: no property below depends on how
  containment is computed.
\<close>

definition ST_Within :: "(xy \<Rightarrow> 'g \<Rightarrow> bool) \<Rightarrow> xy geom \<Rightarrow> 'g geom \<Rightarrow> sql_error + bool" where
  "ST_Within st_within a b =
     (if srid a = srid b then Inr (st_within (shape a) (shape b)) else Inl mixed_srid)"

text \<open>
  Table \<^verbatim>\<open>areas\<close> (lines 10-22); its column \<^verbatim>\<open>geometry GEOMETRY(MULTIPOLYGON, 4326)\<close> has
  shapes of a type \<open>'g\<close>. The statistics and timestamp columns, which nothing below
  reads, are left out.
\<close>

record 'g areas_row =
  areas_id :: int
  name :: string
  city :: string
  province :: string
  geometry :: "'g geom"

text \<open>
  Table \<^verbatim>\<open>listings\<close> (lines 29-53), column by column; \<^verbatim>\<open>id\<close> is \<open>id_col\<close>. Dates and
  timestamps are natural numbers.
\<close>

record listings_row =
  id_col :: string
  url_hash :: string
  url :: string
  title :: "string option"
  price :: "rat option"
  currency :: "string option"
  price_per_sqm :: "rat option"
  area_sqm :: "rat option"
  bedrooms :: "int option"
  bathrooms :: "rat option"
  property_type :: "string option"
  listing_type :: "string option"
  address :: "string option"
  coordinates :: "xy geom option"
  area_id :: "int option"
  site_domain :: "string option"
  published_date :: "nat option"
  scraped_at :: "nat option"
  updated_at :: "nat option"
  raw_data :: "string option"
  is_active :: "bool option"
  yearly_yield :: "rat option"
  monthly_rent :: "rat option"

text \<open>
  The coercion of the values a statement gives for a row of \<^verbatim>\<open>listings\<close> to the types of
  their columns, in the order of the columns: \<^verbatim>\<open>url_hash VARCHAR(64)\<close>,
  \<^verbatim>\<open>price DECIMAL(12,2)\<close>, \<^verbatim>\<open>currency VARCHAR(3)\<close>, \<^verbatim>\<open>price_per_sqm DECIMAL(10,2)\<close>,
  \<^verbatim>\<open>area_sqm DECIMAL(8,2)\<close>, \<^verbatim>\<open>bedrooms INTEGER\<close>, \<^verbatim>\<open>bathrooms DECIMAL(3,1)\<close>,
  \<^verbatim>\<open>property_type VARCHAR(50)\<close>, \<^verbatim>\<open>listing_type VARCHAR(20)\<close>,
  \<^verbatim>\<open>coordinates GEOMETRY(POINT, 4326)\<close>, \<^verbatim>\<open>area_id INTEGER\<close>, \<^verbatim>\<open>site_domain VARCHAR(100)\<close>,
  \<^verbatim>\<open>yearly_yield DECIMAL(5,2)\<close>, \<^verbatim>\<open>monthly_rent DECIMAL(10,2)\<close>. The other columns take
  their values as they are.
\<close>

definition coerce_listing :: "listings_row \<Rightarrow> sql_error + listings_row" where
  "coerce_listing r =
     and_then (to_varchar 64 (url_hash r)) (\<lambda>h.
     and_then (nullable (to_decimal 12 2) (price r)) (\<lambda>p.
     and_then (nullable (to_varchar 3) (currency r)) (\<lambda>cu.
     and_then (nullable (to_decimal 10 2) (price_per_sqm r)) (\<lambda>pp.
     and_then (nullable (to_decimal 8 2) (area_sqm r)) (\<lambda>a.
     and_then (nullable to_integer (bedrooms r)) (\<lambda>be.
     and_then (nullable (to_decimal 3 1) (bathrooms r)) (\<lambda>ba.
     and_then (nullable (to_varchar 50) (property_type r)) (\<lambda>pt.
     and_then (nullable (to_varchar 20) (listing_type r)) (\<lambda>lt.
     and_then (nullable to_geometry_4326 (coordinates r)) (\<lambda>co.
     and_then (nullable to_integer (area_id r)) (\<lambda>ai.
     and_then (nullable (to_varchar 100) (site_domain r)) (\<lambda>sd.
     and_then (nullable (to_decimal 5 2) (yearly_yield r)) (\<lambda>yy.
     and_then (nullable (to_decimal 10 2) (monthly_rent r)) (\<lambda>mr.
       Inr (r\<lparr>url_hash := h, price := p, currency := cu, price_per_sqm := pp,
              area_sqm := a, bedrooms := be, bathrooms := ba, property_type := pt,
              listing_type := lt, coordinates := co, area_id := ai, site_domain := sd,
              yearly_yield := yy, monthly_rent := mr\<rparr>)))))))))))))))"

section \<open>Area detection and the write trigger\<close>

text \<open>
  \<^verbatim>\<open>detect_area_from_coordinates(lat DECIMAL, lon DECIMAL)\<close> (lines 169-181):
  \<^verbatim>\<open>SELECT a.id INTO area_id FROM areas a WHERE ST_Within(ST_Point(lon, lat), a.geometry) LIMIT 1\<close>.
  The rows of \<^verbatim>\<open>areas\<close> are visited in the order of the table, which is the list of its
  rows in insertion order; the first row for which \<^verbatim>\<open>ST_Within\<close> is true gives the id,
  no such row gives NULL, and an error raised by \<^verbatim>\<open>ST_Within\<close> on a visited row is the
  error of the call.
\<close>

fun first_area_within ::
  "(xy \<Rightarrow> 'g \<Rightarrow> bool) \<Rightarrow> xy geom \<Rightarrow> 'g areas_row list \<Rightarrow> sql_error + int option" where
  "first_area_within st_within pt [] = Inr None"
| "first_area_within st_within pt (a # rest) =
     (case ST_Within st_within pt (geometry a) of
        Inl e \<Rightarrow> Inl e
      | Inr inside \<Rightarrow>
          if inside then Inr (Some (areas_id a)) else first_area_within st_within pt rest)"

definition detect_area_from_coordinates ::
  "(xy \<Rightarrow> 'g \<Rightarrow> bool) \<Rightarrow> 'g areas_row list \<Rightarrow> rat \<Rightarrow> rat \<Rightarrow> sql_error + int option" where
  "detect_area_from_coordinates st_within areas lat lon =
     first_area_within st_within (ST_Point lon lat) areas"

text \<open>
  A call of the function with two arguments. PostgreSQL resolves the call by the types
  of the arguments: \<^verbatim>\<open>NUMERIC\<close> arguments match the declared \<^verbatim>\<open>(DECIMAL, DECIMAL)\<close>; for
  \<^verbatim>\<open>double precision\<close> arguments there is no implicit cast to \<^verbatim>\<open>NUMERIC\<close> and the call
  raises \<^verbatim>\<open>function detect_area_from_coordinates(double precision, double precision) does not exist\<close>.
\<close>

definition call_detect_area_from_coordinates ::
  "(xy \<Rightarrow> 'g \<Rightarrow> bool) \<Rightarrow> 'g areas_row list \<Rightarrow> sql_number \<Rightarrow> sql_number
     \<Rightarrow> sql_error + int option" where
  "call_detect_area_from_coordinates st_within areas lat lon =
     (case (lat, lon) of
        (Numeric la, Numeric lo) \<Rightarrow> detect_area_from_coordinates st_within areas la lo
      | _ \<Rightarrow> Inl undefined_function)"

text \<open>
  \<^verbatim>\<open>trigger_update_listing_area()\<close> (lines 184-209), \<^verbatim>\<open>BEFORE INSERT OR UPDATE ... FOR EACH ROW\<close>:
  its three \<^verbatim>\<open>IF\<close> blocks in order, then \<^verbatim>\<open>NEW.updated_at := NOW()\<close>. A condition that
  is NULL (a comparison with a NULL column) does not enter the block. The first block
  calls \<^verbatim>\<open>detect_area_from_coordinates(ST_Y(NEW.coordinates), ST_X(NEW.coordinates))\<close>.
\<close>

definition detect_area_block ::
  "(xy \<Rightarrow> 'g \<Rightarrow> bool) \<Rightarrow> 'g areas_row list \<Rightarrow> listings_row \<Rightarrow> sql_error + listings_row" where
  "detect_area_block st_within areas new =
     (case (coordinates new, area_id new) of
        (Some c, None) \<Rightarrow>
          (case call_detect_area_from_coordinates st_within areas (ST_Y c) (ST_X c) of
             Inl e \<Rightarrow> Inl e
           | Inr a \<Rightarrow> Inr (new\<lparr>area_id := a\<rparr>))
      | _ \<Rightarrow> Inr new)"

definition price_per_sqm_block :: "listings_row \<Rightarrow> sql_error + listings_row" where
  "price_per_sqm_block new =
     (case (price new, area_sqm new, price_per_sqm new) of
        (Some p, Some a, None) \<Rightarrow>
          if 0 < p \<and> 0 < a
          then (case to_decimal 10 2 (p / a) of
                  Inl e \<Rightarrow> Inl e
                | Inr v \<Rightarrow> Inr (new\<lparr>price_per_sqm := Some v\<rparr>))
          else Inr new
      | _ \<Rightarrow> Inr new)"

definition yearly_yield_block :: "listings_row \<Rightarrow> sql_error + listings_row" where
  "yearly_yield_block new =
     (case (listing_type new, monthly_rent new, price new) of
        (Some t, Some m, Some p) \<Rightarrow>
          if t = ''rent'' \<and> 0 < m \<and> 0 < p
          then (case to_decimal 5 2 ((m * 12 / p) * 100) of
                  Inl e \<Rightarrow> Inl e
                | Inr v \<Rightarrow> Inr (new\<lparr>yearly_yield := Some v\<rparr>))
          else Inr new
      | _ \<Rightarrow> Inr new)"

definition trigger_update_listing_area ::
  "(xy \<Rightarrow> 'g \<Rightarrow> bool) \<Rightarrow> 'g areas_row list \<Rightarrow> nat \<Rightarrow> listings_row
     \<Rightarrow> sql_error + listings_row" where
  "trigger_update_listing_area st_within areas now new =
     (case detect_area_block st_within areas new of
        Inl e \<Rightarrow> Inl e
      | Inr new1 \<Rightarrow>
          (case price_per_sqm_block new1 of
             Inl e \<Rightarrow> Inl e
           | Inr new2 \<Rightarrow>
               (case yearly_yield_block new2 of
                  Inl e \<Rightarrow> Inl e
                | Inr new3 \<Rightarrow> Inr (new3\<lparr>updated_at := Some now\<rparr>))))"

section \<open>Writes to \<^verbatim>\<open>listings\<close>\<close>

text \<open>
  The table is the list of its rows in insertion order. The row \<open>new\<close> of an
  \<^verbatim>\<open>INSERT\<close> and the values of the \<^verbatim>\<open>SET\<close> list of an \<^verbatim>\<open>UPDATE\<close> are values of the column
  types (\<open>coerce_listing\<close> above makes them so). \<^verbatim>\<open>INSERT\<close> fires the trigger on
  the proposed row, then the \<^verbatim>\<open>PRIMARY KEY\<close> on \<^verbatim>\<open>id\<close> and the \<^verbatim>\<open>UNIQUE\<close> constraint on
  \<^verbatim>\<open>url_hash\<close> (lines 30-31) reject a row whose key is taken.
\<close>

definition insert_listing ::
  "(xy \<Rightarrow> 'g \<Rightarrow> bool) \<Rightarrow> 'g areas_row list \<Rightarrow> nat \<Rightarrow> listings_row
     \<Rightarrow> listings_row list \<Rightarrow> sql_error + listings_row list" where
  "insert_listing st_within areas now new tbl =
     (case trigger_update_listing_area st_within areas now new of
        Inl e \<Rightarrow> Inl e
      | Inr r \<Rightarrow>
          if url_hash r \<in> set (map url_hash tbl) \<or> id_col r \<in> set (map id_col tbl)
          then Inl unique_violation
          else Inr (tbl @ [r]))"

text \<open>
  \<^verbatim>\<open>UPDATE listings SET ... WHERE ...\<close>: for each row that \<open>wh\<close> selects, \<^verbatim>\<open>NEW\<close> is the
  stored row with the \<^verbatim>\<open>SET\<close> list \<open>setc\<close> applied; the trigger fires on \<^verbatim>\<open>NEW\<close> and
  its result replaces the row. The statement fails as a whole when the trigger raises
  or when two rows end with the same key.
\<close>

fun update_rows ::
  "(listings_row \<Rightarrow> sql_error + listings_row) \<Rightarrow> (listings_row \<Rightarrow> bool)
     \<Rightarrow> (listings_row \<Rightarrow> listings_row) \<Rightarrow> listings_row list
     \<Rightarrow> sql_error + listings_row list" where
  "update_rows trg wh setc [] = Inr []"
| "update_rows trg wh setc (r # rs) =
     (if wh r
      then (case trg (setc r) of
              Inl e \<Rightarrow> Inl e
            | Inr r' \<Rightarrow>
                (case update_rows trg wh setc rs of
                   Inl e \<Rightarrow> Inl e
                 | Inr rs' \<Rightarrow> Inr (r' # rs')))
      else (case update_rows trg wh setc rs of
              Inl e \<Rightarrow> Inl e
            | Inr rs' \<Rightarrow> Inr (r # rs')))"

definition update_listings ::
  "(xy \<Rightarrow> 'g \<Rightarrow> bool) \<Rightarrow> 'g areas_row list \<Rightarrow> nat \<Rightarrow> (listings_row \<Rightarrow> bool)
     \<Rightarrow> (listings_row \<Rightarrow> listings_row) \<Rightarrow> listings_row list
     \<Rightarrow> sql_error + listings_row list" where
  "update_listings st_within areas now wh setc tbl =
     (case update_rows (trigger_update_listing_area st_within areas now) wh setc tbl of
        Inl e \<Rightarrow> Inl e
      | Inr tbl' \<Rightarrow>
          if distinct (map url_hash tbl') \<and> distinct (map id_col tbl')
          then Inr tbl'
          else Inl unique_violation)"

section \<open>The Loader's upsert\<close>

text \<open>
  Modelled from the spec: the NormalizedRecord. The ETL code (\<^verbatim>\<open>etl/normalize.py\<close>,
  \<^verbatim>\<open>etl/dedupe.py\<close>, \<^verbatim>\<open>etl/loader.py\<close>, the validator) is not among the sources; the
  specification (sections 3 and 6) lists the fields: url, title, price, currency, area
  in square meters, address, coordinates, bedrooms, bathrooms, listing kind, the scraped
  timestamp, and the identity key (or URL hash). A field that a record lacks is \<open>None\<close>.
  A ValidatedRecord is a NormalizedRecord with its outcome; the Loader receives the
  records that passed, so the outcome is not a field.
\<close>

record normalized_record =
  identity_key :: string
  rec_url :: "string option"
  rec_title :: "string option"
  rec_price :: "rat option"
  rec_currency :: "string option"
  rec_area_sqm :: "rat option"
  rec_bedrooms :: "int option"
  rec_bathrooms :: "rat option"
  rec_listing_type :: "string option"
  rec_address :: "string option"
  rec_coordinates :: "xy option"
  rec_scraped_at :: nat

type_synonym validated_record = normalized_record

text \<open>
  Modelled from the spec: the row the Loader's statement gives for a record (section 4.5:
  "otherwise insert a new row with \<^verbatim>\<open>scraped_at = now\<close>"). The id is the fresh UUID of the
  column default, the point has the SRID of its column, the columns the record does not
  carry are NULL and \<^verbatim>\<open>is_active\<close> takes its default. The values are coerced to the types
  of their columns; a record without url violates \<^verbatim>\<open>url TEXT NOT NULL\<close>.
\<close>

definition new_listing :: "string \<Rightarrow> nat \<Rightarrow> validated_record \<Rightarrow> sql_error + listings_row" where
  "new_listing fresh_id now v =
     (case rec_url v of
        None \<Rightarrow> Inl not_null_violation
      | Some u \<Rightarrow>
          coerce_listing
            \<lparr>id_col = fresh_id, url_hash = identity_key v, url = u, title = rec_title v,
             price = rec_price v, currency = rec_currency v, price_per_sqm = None,
             area_sqm = rec_area_sqm v, bedrooms = rec_bedrooms v,
             bathrooms = rec_bathrooms v, property_type = None,
             listing_type = rec_listing_type v, address = rec_address v,
             coordinates = map_option (Geom 4326) (rec_coordinates v), area_id = None,
             site_domain = None, published_date = None, scraped_at = Some now,
             updated_at = Some now, raw_data = None, is_active = Some True,
             yearly_yield = None, monthly_rent = None\<rparr>)"

text \<open>
  Modelled from the spec: the mutable fields of a row are the columns that hold the fields
  of the record other than its key; an update of the row sets them to the values \<open>c\<close>
  that the statement gives for the record.
\<close>

definition set_mutable_fields :: "listings_row \<Rightarrow> listings_row \<Rightarrow> listings_row" where
  "set_mutable_fields c r =
     r\<lparr>url := url c, title := title c, price := price c, currency := currency c,
       area_sqm := area_sqm c, bedrooms := bedrooms c, bathrooms := bathrooms c,
       listing_type := listing_type c, address := address c,
       coordinates := coordinates c\<rparr>"

text \<open>The mutable fields of the row \<open>r\<close> hold the values \<open>c\<close>.\<close>

definition has_fields_of :: "listings_row \<Rightarrow> listings_row \<Rightarrow> bool" where
  "has_fields_of c r =
     (url r = url c \<and> title r = title c \<and> price r = price c \<and>
      currency r = currency c \<and> area_sqm r = area_sqm c \<and>
      bedrooms r = bedrooms c \<and> bathrooms r = bathrooms c \<and>
      listing_type r = listing_type c \<and> address r = address c \<and>
      coordinates r = coordinates c)"

text \<open>The mutable fields of the row \<open>r\<close> hold the values of the record \<open>v\<close> as they are.\<close>

definition has_values_of :: "validated_record \<Rightarrow> listings_row \<Rightarrow> bool" where
  "has_values_of v r =
     (Some (url r) = rec_url v \<and> title r = rec_title v \<and> price r = rec_price v \<and>
      currency r = rec_currency v \<and> area_sqm r = rec_area_sqm v \<and>
      bedrooms r = rec_bedrooms v \<and> bathrooms r = rec_bathrooms v \<and>
      listing_type r = rec_listing_type v \<and> address r = rec_address v \<and>
      coordinates r = map_option (Geom 4326) (rec_coordinates v))"

text \<open>
  Modelled from the spec: the condition \<^verbatim>\<open>WHERE url_hash = h\<close> of the update "keyed by
  identity key (or URL hash)".
\<close>

definition where_url_hash :: "string \<Rightarrow> listings_row \<Rightarrow> bool" where
  "where_url_hash h r = (url_hash r = h)"

text \<open>
  Modelled from the spec: the Loader's upsert (section 4.5: "if a row with the same key
  exists, update mutable fields and \<^verbatim>\<open>updated_at\<close>; otherwise insert a new row"). Both
  branches are the \<^verbatim>\<open>UPDATE\<close> and \<^verbatim>\<open>INSERT\<close> of the schema above, with its column types,
  its trigger and its constraints.
\<close>

definition upsert_listing ::
  "(xy \<Rightarrow> 'g \<Rightarrow> bool) \<Rightarrow> 'g areas_row list \<Rightarrow> nat \<Rightarrow> string \<Rightarrow> validated_record
     \<Rightarrow> listings_row list \<Rightarrow> sql_error + listings_row list" where
  "upsert_listing st_within areas now fresh_id v tbl =
     and_then (new_listing fresh_id now v) (\<lambda>c.
       if url_hash c \<in> set (map url_hash tbl)
       then update_listings st_within areas now (where_url_hash (url_hash c))
              (set_mutable_fields c) tbl
       else insert_listing st_within areas now c tbl)"

section \<open>The Deduplicator\<close>

text \<open>
  Modelled from the spec: the completeness of a record, its number of non-null fields
  (section 4.3: "prefer the record with more non-null fields").
\<close>

definition non_null_fields :: "normalized_record \<Rightarrow> nat" where
  "non_null_fields v =
     length (filter id
       [rec_title v \<noteq> None, rec_price v \<noteq> None, rec_currency v \<noteq> None,
        rec_area_sqm v \<noteq> None, rec_bedrooms v \<noteq> None, rec_bathrooms v \<noteq> None,
        rec_listing_type v \<noteq> None, rec_address v \<noteq> None, rec_coordinates v \<noteq> None])"

text \<open>
  Modelled from the spec: the tie-break between two records with one key (section 4.3:
  "prefer the record with more non-null fields; on equal completeness, prefer the most
  recently scraped"). \<open>preferred c i\<close>: the candidate \<open>c\<close> replaces the incumbent \<open>i\<close>.
\<close>

definition preferred :: "normalized_record \<Rightarrow> normalized_record \<Rightarrow> bool" where
  "preferred c i =
     (non_null_fields i < non_null_fields c \<or>
      (non_null_fields i = non_null_fields c \<and> rec_scraped_at i < rec_scraped_at c))"

text \<open>
  Modelled from the spec: the Deduplicator (\<^verbatim>\<open>dedupe_records\<close> of \<^verbatim>\<open>etl/dedupe.py\<close>, which
  is not among the sources). Section 4.3: "given a sequence of NormalizedRecord, return a
  sequence with at most one record per identity key", a pure reduction that "may process
  records in input order": each record either takes the place of the kept record with
  its key, is dropped in favour of it, or is kept as the first of its key.
\<close>

fun dedupe_insert :: "normalized_record \<Rightarrow> normalized_record list \<Rightarrow> normalized_record list" where
  "dedupe_insert c [] = [c]"
| "dedupe_insert c (i # kept) =
     (if identity_key c = identity_key i
      then (if preferred c i then c # kept else i # kept)
      else i # dedupe_insert c kept)"

definition dedupe_records :: "normalized_record list \<Rightarrow> normalized_record list" where
  "dedupe_records recs = foldl (\<lambda>kept c. dedupe_insert c kept) [] recs"

section \<open>The Validator\<close>








section \<open>The listings read interface\<close>

text \<open>
  A row of the query of \<^verbatim>\<open>ListingService.findAll\<close> (\<^verbatim>\<open>listing.service.ts\<close>, lines 32-58)
  and of the Express route \<^verbatim>\<open>GET /listings\<close>, as node-postgres delivers it: a NULL
  column is \<^verbatim>\<open>null\<close>, a \<^verbatim>\<open>DECIMAL\<close> column a non-empty numeric string (here the number
  it denotes), an \<^verbatim>\<open>INTEGER\<close> or \<^verbatim>\<open>ST_X\<close>/\<^verbatim>\<open>ST_Y\<close> column a number, a timestamp a
  \<^verbatim>\<open>Date\<close> (here its milliseconds). The outcome of the query is \<open>Inr rows\<close>, or \<open>Inl e\<close>
  when \<^verbatim>\<open>query\<close> rejects with the error \<open>e\<close>.
\<close>

record raw_listing =
  row_id :: string
  row_title :: "string option"
  row_price :: "rat option"
  row_property_type :: "string option"
  row_address :: "string option"
  row_area_sqm :: "rat option"
  row_bedrooms :: "int option"
  row_bathrooms :: "rat option"
  row_latitude :: "rat option"
  row_longitude :: "rat option"
  row_url :: "string option"
  row_created_at :: "nat option"
  row_updated_at :: "nat option"

text \<open>
  JavaScript's \<^verbatim>\<open>s || d\<close> on a string or \<^verbatim>\<open>null\<close>, \<^verbatim>\<open>Number(x) || 0\<close> on a numeric
  string or \<^verbatim>\<open>null\<close> (\<^verbatim>\<open>Number(null)\<close> is 0), \<^verbatim>\<open>n ? Number(n) : undefined\<close> on a
  number or \<^verbatim>\<open>null\<close> (0 is falsy) and on a numeric string or \<^verbatim>\<open>null\<close> (a non-empty
  string is truthy), and \<^verbatim>\<open>new Date(t)\<close> (\<^verbatim>\<open>new Date(null)\<close> is the epoch).
\<close>

definition or_string :: "string option \<Rightarrow> string \<Rightarrow> string" where
  "or_string s d = (case s of None \<Rightarrow> d | Some x \<Rightarrow> if x = [] then d else x)"

definition number_or_zero :: "rat option \<Rightarrow> rat" where
  "number_or_zero x = (case x of None \<Rightarrow> 0 | Some v \<Rightarrow> if v = 0 then 0 else v)"

definition truthy_number :: "rat option \<Rightarrow> rat option" where
  "truthy_number n = (case n of None \<Rightarrow> None | Some v \<Rightarrow> if v = 0 then None else Some v)"

definition truthy_numeric_string :: "rat option \<Rightarrow> rat option" where
  "truthy_numeric_string s = (case s of None \<Rightarrow> None | Some v \<Rightarrow> Some v)"

definition new_Date :: "nat option \<Rightarrow> nat" where
  "new_Date t = (case t of None \<Rightarrow> 0 | Some ms \<Rightarrow> ms)"

text \<open>
  \<^verbatim>\<open>interface ListingWithCoordinates\<close> (lines 6-20), fields prefixed with \<open>lw_\<close>; the
  value \<^verbatim>\<open>{ listings, total }\<close> that \<^verbatim>\<open>findAll\<close> resolves to.
\<close>

record listing_with_coordinates =
  lw_id :: string
  lw_title :: string
  lw_price :: rat
  lw_property_type :: string
  lw_address :: string
  lw_area_sqm :: "rat option"
  lw_bedrooms :: "rat option"
  lw_bathrooms :: "rat option"
  lw_latitude :: "rat option"
  lw_longitude :: "rat option"
  lw_url :: string
  lw_created_at :: nat
  lw_updated_at :: nat

record find_all_result =
  res_listings :: "listing_with_coordinates list"
  res_total :: nat

text \<open>The mapping of one row (lines 62-76).\<close>

definition to_listing_with_coordinates :: "raw_listing \<Rightarrow> listing_with_coordinates" where
  "to_listing_with_coordinates listing =
     \<lparr>lw_id = row_id listing,
      lw_title = or_string (row_title listing) ''Sans titre'',
      lw_price = number_or_zero (row_price listing),
      lw_property_type = or_string (row_property_type listing) ''apartment'',
      lw_address = or_string (row_address listing) ''Adresse non disponible'',
      lw_area_sqm = truthy_numeric_string (row_area_sqm listing),
      lw_bedrooms = truthy_number (map_option of_int (row_bedrooms listing)),
      lw_bathrooms = truthy_numeric_string (row_bathrooms listing),
      lw_latitude = truthy_number (row_latitude listing),
      lw_longitude = truthy_number (row_longitude listing),
      lw_url = or_string (row_url listing) [],
      lw_created_at = new_Date (row_created_at listing),
      lw_updated_at = new_Date (row_updated_at listing)\<rparr>"

text \<open>
  The fallback list of the \<^verbatim>\<open>catch\<close> block (lines 86-162). Its \<^verbatim>\<open>new Date()\<close> calls are
  taken at one instant \<open>now\<close>.
\<close>

definition mockListings :: "nat \<Rightarrow> listing_with_coordinates list" where
  "mockListings now =
     [\<lparr>lw_id = ''1'', lw_title = ''Superbe condo 2BR dans Ville-Marie'', lw_price = 450000,
       lw_property_type = ''Condo'', lw_address = ''1234 Rue Saint-Denis, Ville-Marie, QC'',
       lw_area_sqm = Some 85, lw_bedrooms = Some 2, lw_bathrooms = Some 1,
       lw_latitude = Some (455088 / 10000), lw_longitude = Some (- 735878 / 10000),
       lw_url = ''https://example.com/listing/1'', lw_created_at = now, lw_updated_at = now\<rparr>,
      \<lparr>lw_id = ''2'', lw_title = ''Appartement 3BR Plateau-Mont-Royal'', lw_price = 525000,
       lw_property_type = ''Apartment'',
       lw_address = ''5678 Boulevard Saint-Laurent, Le Plateau-Mont-Royal, QC'',
       lw_area_sqm = Some 120, lw_bedrooms = Some 3, lw_bathrooms = Some 2,
       lw_latitude = Some (455276 / 10000), lw_longitude = Some (- 735825 / 10000),
       lw_url = ''https://example.com/listing/2'', lw_created_at = now, lw_updated_at = now\<rparr>,
      \<lparr>lw_id = ''3'', lw_title = ''Maison 4BR Outremont'', lw_price = 850000,
       lw_property_type = ''House'', lw_address = ''9876 Avenue du Parc, Outremont, QC'',
       lw_area_sqm = Some 200, lw_bedrooms = Some 4, lw_bathrooms = Some 3,
       lw_latitude = Some (455234 / 10000), lw_longitude = Some (- 736078 / 10000),
       lw_url = ''https://example.com/listing/3'', lw_created_at = now, lw_updated_at = now\<rparr>,
      \<lparr>lw_id = ''4'', lw_title = ''Loft 1BR Griffintown'', lw_price = 320000,
       lw_property_type = ''Condo'', lw_address = ''1111 Rue Notre-Dame, Le Sud-Ouest, QC'',
       lw_area_sqm = Some 60, lw_bedrooms = Some 1, lw_bathrooms = Some 1,
       lw_latitude = Some (454942 / 10000), lw_longitude = Some (- 735597 / 10000),
       lw_url = ''https://example.com/listing/4'', lw_created_at = now, lw_updated_at = now\<rparr>,
      \<lparr>lw_id = ''5'', lw_title = ''Townhouse 3BR Verdun'', lw_price = 475000,
       lw_property_type = ''Townhouse'', lw_address = ''2222 Rue Wellington, Verdun, QC'',
       lw_area_sqm = Some 140, lw_bedrooms = Some 3, lw_bathrooms = Some 2,
       lw_latitude = Some (454533 / 10000), lw_longitude = Some (- 735673 / 10000),
       lw_url = ''https://example.com/listing/5'', lw_created_at = now, lw_updated_at = now\<rparr>]"

text \<open>
  \<^verbatim>\<open>ListingService.findAll\<close> (lines 29-169): the \<^verbatim>\<open>try\<close> block on the rows of a query that
  succeeded, the \<^verbatim>\<open>catch\<close> block on a query that failed. Both end in \<^verbatim>\<open>return\<close>: the
  promise resolves in either case.
\<close>

definition findAll :: "nat \<Rightarrow> 'e + raw_listing list \<Rightarrow> find_all_result" where
  "findAll now query =
     (case query of
        Inr rawListings \<Rightarrow>
          (let ls = map to_listing_with_coordinates rawListings
           in \<lparr>res_listings = ls, res_total = length ls\<rparr>)
      | Inl error \<Rightarrow>
          \<lparr>res_listings = mockListings now, res_total = length (mockListings now)\<rparr>)"

text \<open>
  The Express route \<^verbatim>\<open>app.get('/listings')\<close> (lines 21-162 of the server script): the
  entries of its JSON body, fields prefixed with \<open>js_\<close>; \<^verbatim>\<open>res.json\<close> answers with
  status 200. The letter a with grave accent of two descriptions is written by its code
  point \<open>0xE0\<close>.
\<close>

record listing_json =
  js_id :: string
  js_title :: string
  js_description :: string
  js_price :: rat
  js_location :: string
  js_property_type :: string
  js_rooms :: int
  js_surface :: "rat option"
  js_latitude :: "rat option"
  js_longitude :: "rat option"
  js_url :: string
  js_created_at :: "nat option"
  js_updated_at :: "nat option"

record listings_body =
  body_listings :: "listing_json list"
  body_total :: nat

record http_response =
  status_code :: nat
  body :: listings_body

definition res_json :: "listings_body \<Rightarrow> http_response" where
  "res_json b = \<lparr>status_code = 200, body = b\<rparr>"

definition to_listing_json :: "raw_listing \<Rightarrow> listing_json" where
  "to_listing_json listing =
     \<lparr>js_id = row_id listing,
      js_title = or_string (row_title listing) ''Sans titre'',
      js_description = or_string (row_title listing) ''Description non disponible'',
      js_price = number_or_zero (row_price listing),
      js_location = or_string (row_address listing) ''Adresse non disponible'',
      js_property_type = or_string (row_property_type listing) ''appartement'',
      js_rooms = (case row_bedrooms listing of None \<Rightarrow> 1 | Some b \<Rightarrow> if b = 0 then 1 else b),
      js_surface = truthy_numeric_string (row_area_sqm listing),
      js_latitude = truthy_number (row_latitude listing),
      js_longitude = truthy_number (row_longitude listing),
      js_url = or_string (row_url listing) [],
      js_created_at = row_created_at listing,
      js_updated_at = row_updated_at listing\<rparr>"

definition mockListings_json :: "nat \<Rightarrow> listing_json list" where
  "mockListings_json now =
     [\<lparr>js_id = ''1'', js_title = ''Superbe condo 2BR dans Ville-Marie'',
       js_description = ''Magnifique condo avec vue sur le fleuve'', js_price = 450000,
       js_location = ''1234 Rue Saint-Denis, Ville-Marie, QC'', js_property_type = ''condo'',
       js_rooms = 2, js_surface = Some 85,
       js_latitude = Some (455088 / 10000), js_longitude = Some (- 735878 / 10000),
       js_url = ''https://example.com/listing/1'',
       js_created_at = Some now, js_updated_at = Some now\<rparr>,
      \<lparr>js_id = ''2'', js_title = ''Appartement 3BR Plateau-Mont-Royal'',
       js_description = ''Charmant appartement dans le Plateau'', js_price = 525000,
       js_location = ''5678 Boulevard Saint-Laurent, Le Plateau-Mont-Royal, QC'',
       js_property_type = ''appartement'', js_rooms = 3, js_surface = Some 120,
       js_latitude = Some (455276 / 10000), js_longitude = Some (- 735825 / 10000),
       js_url = ''https://example.com/listing/2'',
       js_created_at = Some now, js_updated_at = Some now\<rparr>,
      \<lparr>js_id = ''3'', js_title = ''Maison 4BR Outremont'',
       js_description = ''Belle maison familiale '' @ [CHR 0xE0] @ '' Outremont'', js_price = 850000,
       js_location = ''9876 Avenue du Parc, Outremont, QC'', js_property_type = ''maison'',
       js_rooms = 4, js_surface = Some 200,
       js_latitude = Some (455234 / 10000), js_longitude = Some (- 736078 / 10000),
       js_url = ''https://example.com/listing/3'',
       js_created_at = Some now, js_updated_at = Some now\<rparr>,
      \<lparr>js_id = ''4'', js_title = ''Loft 1BR Griffintown'',
       js_description = ''Loft moderne dans Griffintown'', js_price = 320000,
       js_location = ''1111 Rue Notre-Dame, Le Sud-Ouest, QC'', js_property_type = ''loft'',
       js_rooms = 1, js_surface = Some 60,
       js_latitude = Some (454942 / 10000), js_longitude = Some (- 735597 / 10000),
       js_url = ''https://example.com/listing/4'',
       js_created_at = Some now, js_updated_at = Some now\<rparr>,
      \<lparr>js_id = ''5'', js_title = ''Townhouse 3BR Verdun'',
       js_description = ''Maison de ville '' @ [CHR 0xE0] @ '' Verdun'', js_price = 475000,
       js_location = ''2222 Rue Wellington, Verdun, QC'', js_property_type = ''maison'',
       js_rooms = 3, js_surface = Some 140,
       js_latitude = Some (454533 / 10000), js_longitude = Some (- 735673 / 10000),
       js_url = ''https://example.com/listing/5'',
       js_created_at = Some now, js_updated_at = Some now\<rparr>]"

definition get_listings :: "nat \<Rightarrow> 'e + raw_listing list \<Rightarrow> http_response" where
  "get_listings now query =
     (case query of
        Inr rows \<Rightarrow>
          (let ls = map to_listing_json rows
           in res_json \<lparr>body_listings = ls, body_total = length ls\<rparr>)
      | Inl error \<Rightarrow>
          res_json \<lparr>body_listings = mockListings_json now,
                    body_total = length (mockListings_json now)\<rparr>)"

section \<open>Sample data\<close>

text \<open>
  Concrete rows and tables on which the properties below are instantiated.
\<close>

definition sample_listing :: listings_row where
  "sample_listing =
     \<lparr>id_col = ''0b0e7a52-0001'', url_hash = ''a1'', url = ''https://test.example.com/listing/1'',
      title = Some ''Superbe condo 2BR dans Ville-Marie'', price = Some 450000,
      currency = Some ''CAD'', price_per_sqm = None, area_sqm = Some 90, bedrooms = Some 2,
      bathrooms = Some (3 / 2), property_type = Some ''Condo'', listing_type = Some ''sale'',
      address = Some ''1234 Rue Saint-Denis, Ville-Marie, QC'', coordinates = None,
      area_id = None, site_domain = Some ''test.example.com'', published_date = None,
      scraped_at = Some 1, updated_at = Some 1, raw_data = None, is_active = Some True,
      yearly_yield = None, monthly_rent = None\<rparr>"

definition no_areas :: "unit areas_row list" where
  "no_areas = []"

definition never_within :: "xy \<Rightarrow> unit \<Rightarrow> bool" where
  "never_within pt g = False"

definition sample_rental :: listings_row where
  "sample_rental =
     sample_listing\<lparr>id_col := ''0b0e7a52-0002'', url_hash := ''a2'',
       url := ''https://test.example.com/listing/2'', price := Some 300000,
       listing_type := Some ''rent'', monthly_rent := Some 1500\<rparr>"

text \<open>
  The \<^verbatim>\<open>SET\<close> lists of \<^verbatim>\<open>UPDATE listings SET price = p WHERE url_hash = h\<close> and of
  \<^verbatim>\<open>UPDATE listings SET price = p, area_sqm = a WHERE url_hash = h\<close>.
\<close>

definition set_price :: "rat option \<Rightarrow> listings_row \<Rightarrow> listings_row" where
  "set_price p r = r\<lparr>price := p\<rparr>"

definition set_price_area :: "rat option \<Rightarrow> rat option \<Rightarrow> listings_row \<Rightarrow> listings_row" where
  "set_price_area p a r = r\<lparr>price := p, area_sqm := a\<rparr>"

text \<open>
  An instance of the containment of shapes, on axis-parallel rectangles
  \<open>Box west south east north\<close>: the point lies strictly inside.
\<close>

datatype box = Box rat rat rat rat

fun strictly_in_box :: "xy \<Rightarrow> box \<Rightarrow> bool" where
  "strictly_in_box (XY x y) (Box w s e n) = (w < x \<and> x < e \<and> s < y \<and> y < n)"

definition ville_marie :: "box areas_row" where
  "ville_marie =
     \<lparr>areas_id = 1, name = ''Ville-Marie'', city = ''Montreal'', province = ''QC'',
      geometry = Geom 4326 (Box (- 7360 / 100) (4549 / 100) (- 7354 / 100) (4552 / 100))\<rparr>"

definition plateau :: "box areas_row" where
  "plateau =
     \<lparr>areas_id = 2, name = ''Le Plateau-Mont-Royal'', city = ''Montreal'', province = ''QC'',
      geometry = Geom 4326 (Box (- 7360 / 100) (4551 / 100) (- 7356 / 100) (4554 / 100))\<rparr>"

text \<open>The table \<^verbatim>\<open>areas\<close> after inserting Ville-Marie, then Le Plateau-Mont-Royal.\<close>

definition sample_areas :: "box areas_row list" where
  "sample_areas = [ville_marie, plateau]"

text \<open>
  Three listings with coordinates and no area yet, as \<^verbatim>\<open>insert_test_data.sql\<close> inserts
  them (\<^verbatim>\<open>ST_SetSRID(ST_MakePoint(lon, lat), 4326)\<close>): one in Ville-Marie only, one in the
  overlap of the two rectangles, one outside both.
\<close>

definition listing_in_ville_marie :: listings_row where
  "listing_in_ville_marie =
     sample_listing\<lparr>coordinates := Some (Geom 4326 (XY (- 735673 / 10000) (455017 / 10000)))\<rparr>"

definition listing_in_overlap :: listings_row where
  "listing_in_overlap =
     sample_listing\<lparr>coordinates := Some (Geom 4326 (XY (- 7358 / 100) (45515 / 1000)))\<rparr>"

definition listing_outside :: listings_row where
  "listing_outside = sample_listing\<lparr>coordinates := Some (Geom 4326 (XY 0 0))\<rparr>"

text \<open>
  A record of the first sample listing and the row stored by its first load; and a
  record whose area is 900 square feet in square meters, with the row stored by its
  first load.
\<close>

definition sample_record :: validated_record where
  "sample_record =
     \<lparr>identity_key = ''a1'', rec_url = Some ''https://test.example.com/listing/1'',
      rec_title = Some ''Superbe condo 2BR dans Ville-Marie'', rec_price = Some 450000,
      rec_currency = Some ''CAD'', rec_area_sqm = Some 90, rec_bedrooms = Some 2,
      rec_bathrooms = Some (3 / 2), rec_listing_type = Some ''sale'',
      rec_address = Some ''1234 Rue Saint-Denis, Ville-Marie, QC'', rec_coordinates = None,
      rec_scraped_at = 5\<rparr>"

definition sample_loaded :: listings_row where
  "sample_loaded =
     sample_listing\<lparr>price_per_sqm := Some 5000, property_type := None, site_domain := None,
       scraped_at := Some 5, updated_at := Some 5\<rparr>"

definition sample_record_sqft :: validated_record where
  "sample_record_sqft =
     sample_record\<lparr>identity_key := ''a3'', rec_area_sqm := Some (83612736 / 1000000)\<rparr>"

definition sample_loaded_sqft :: listings_row where
  "sample_loaded_sqft =
     sample_loaded\<lparr>url_hash := ''a3'', area_sqm := Some (8361 / 100),
       price_per_sqm := Some (538213 / 100)\<rparr>"

section \<open>Properties of the write trigger\<close>

lemma to_decimal_Inr: "to_decimal p s x = Inr v \<Longrightarrow> v = round_to_scale s x \<and> \<bar>v\<bar> < 10 ^ (p - s)"
  by (auto simp: to_decimal_def Let_def split: if_splits)

lemma ST_Y_Float8: "\<exists>y. ST_Y c = Float8 y"
proof (cases c)
  case (Geom s p)
  then show ?thesis by (cases p) simp
qed

lemma ST_X_Float8: "\<exists>x. ST_X c = Float8 x"
proof (cases c)
  case (Geom s p)
  then show ?thesis by (cases p) simp
qed

lemma call_with_double_precision:
  "call_detect_area_from_coordinates st_within areas (ST_Y c) (ST_X c) = Inl undefined_function"
proof -
  obtain x y where "ST_Y c = Float8 y" and "ST_X c = Float8 x"
    using ST_Y_Float8 ST_X_Float8 by blast
  then show ?thesis by (simp add: call_detect_area_from_coordinates_def)
qed

lemma detect_area_block_raises:
  assumes "coordinates new = Some c" and "area_id new = None"
  shows "detect_area_block st_within areas new = Inl undefined_function"
  using assms by (simp add: detect_area_block_def call_with_double_precision)

lemma detect_area_block_Inr:
  assumes "detect_area_block st_within areas new = Inr n1"
  shows "n1 = new \<and> (coordinates new = None \<or> area_id new \<noteq> None)"
proof (cases "coordinates new")
  case None
  with assms show ?thesis by (simp add: detect_area_block_def)
next
  case (Some c)
  show ?thesis
  proof (cases "area_id new")
    case None
    with Some assms detect_area_block_raises[of new c st_within areas] show ?thesis by simp
  next
    case (Some i)
    with assms \<open>coordinates new = Some c\<close> show ?thesis
      by (simp add: detect_area_block_def)
  qed
qed

lemma detect_area_block_passes:
  assumes "coordinates new = None \<or> area_id new \<noteq> None"
  shows "detect_area_block st_within areas new = Inr new"
  using assms by (auto simp: detect_area_block_def split: option.splits)

lemma price_per_sqm_block_frame:
  assumes "price_per_sqm_block new = Inr r"
  shows "\<exists>P. r = new\<lparr>price_per_sqm := P\<rparr>"
proof -
  have "r = new \<or> (\<exists>v. r = new\<lparr>price_per_sqm := Some v\<rparr>)"
    using assms
    by (simp add: price_per_sqm_block_def split: option.splits if_splits sum.splits) blast+
  moreover have "new = new\<lparr>price_per_sqm := price_per_sqm new\<rparr>" by simp
  ultimately show ?thesis by metis
qed

lemma yearly_yield_block_frame:
  assumes "yearly_yield_block new = Inr r"
  shows "\<exists>Y. r = new\<lparr>yearly_yield := Y\<rparr>"
proof -
  have "r = new \<or> (\<exists>v. r = new\<lparr>yearly_yield := Some v\<rparr>)"
    using assms
    by (simp add: yearly_yield_block_def split: option.splits if_splits sum.splits) blast+
  moreover have "new = new\<lparr>yearly_yield := yearly_yield new\<rparr>" by simp
  ultimately show ?thesis by metis
qed

lemma trigger_blocks:
  assumes "trigger_update_listing_area W areas now new = Inr r"
  obtains n2 n3 where
    "coordinates new = None \<or> area_id new \<noteq> None"
    "price_per_sqm_block new = Inr n2"
    "yearly_yield_block n2 = Inr n3"
    "r = n3\<lparr>updated_at := Some now\<rparr>"
proof -
  from assms obtain n1 n2 n3 where
    a: "detect_area_block W areas new = Inr n1" and
    b: "price_per_sqm_block n1 = Inr n2" and
    c: "yearly_yield_block n2 = Inr n3" and
    d: "r = n3\<lparr>updated_at := Some now\<rparr>"
    by (auto simp: trigger_update_listing_area_def split: sum.splits)
  from detect_area_block_Inr[OF a] b c d that show ?thesis by simp
qed

lemma trigger_frame:
  assumes "trigger_update_listing_area W areas now new = Inr r"
  shows "\<exists>P Y. r = new\<lparr>price_per_sqm := P, yearly_yield := Y, updated_at := Some now\<rparr>"
proof -
  from assms obtain n2 n3 where
    a: "price_per_sqm_block new = Inr n2" and
    b: "yearly_yield_block n2 = Inr n3" and
    c: "r = n3\<lparr>updated_at := Some now\<rparr>"
    by (rule trigger_blocks)
  obtain P where e: "n2 = new\<lparr>price_per_sqm := P\<rparr>"
    using price_per_sqm_block_frame[OF a] by blast
  obtain Y where f: "n3 = n2\<lparr>yearly_yield := Y\<rparr>"
    using yearly_yield_block_frame[OF b] by blast
  show ?thesis unfolding c f e by blast
qed

lemma price_per_sqm_block_computed:
  assumes "price_per_sqm_block new = Inr r"
    and "price new = Some p" and "area_sqm new = Some a" and "price_per_sqm new = None"
    and "0 < p" and "0 < a"
  shows "price_per_sqm r = Some (round_to_scale 2 (p / a))"
  using assms
  by (auto simp: price_per_sqm_block_def split: sum.splits dest: to_decimal_Inr)

lemma price_per_sqm_block_changed:
  assumes "price_per_sqm_block new = Inr r"
    and "price_per_sqm r \<noteq> price_per_sqm new"
  shows "price_per_sqm new = None \<and>
         (\<exists>p a. price new = Some p \<and> area_sqm new = Some a \<and> 0 < p \<and> 0 < a)"
  using assms
  by (auto simp: price_per_sqm_block_def split: option.splits if_splits sum.splits)

lemma yearly_yield_block_computed:
  assumes "yearly_yield_block new = Inr r"
    and "listing_type new = Some ''rent''" and "monthly_rent new = Some m"
    and "price new = Some p" and "0 < m" and "0 < p"
  shows "yearly_yield r = Some (round_to_scale 2 ((m * 12 / p) * 100))"
  using assms
  by (auto simp: yearly_yield_block_def split: sum.splits dest: to_decimal_Inr)

lemma yearly_yield_block_changed:
  assumes "yearly_yield_block new = Inr r"
    and "yearly_yield r \<noteq> yearly_yield new"
  shows "listing_type new = Some ''rent'' \<and>
         (\<exists>m p. monthly_rent new = Some m \<and> price new = Some p \<and> 0 < m \<and> 0 < p)"
  using assms
  by (auto simp: yearly_yield_block_def split: option.splits if_splits sum.splits)

lemma trigger_price_per_sqm_computed:
  assumes t: "trigger_update_listing_area W areas now new = Inr r"
    and "price new = Some p" and "area_sqm new = Some a" and "price_per_sqm new = None"
    and "0 < p" and "0 < a"
  shows "price_per_sqm r = Some (round_to_scale 2 (p / a))"
proof -
  from t obtain n2 n3 where
    n2: "price_per_sqm_block new = Inr n2" and
    n3: "yearly_yield_block n2 = Inr n3" and
    r: "r = n3\<lparr>updated_at := Some now\<rparr>"
    by (rule trigger_blocks)
  obtain Y where Y: "n3 = n2\<lparr>yearly_yield := Y\<rparr>"
    using yearly_yield_block_frame[OF n3] by blast
  have "price_per_sqm n2 = Some (round_to_scale 2 (p / a))"
    using price_per_sqm_block_computed[OF n2, of p a] assms(2-) by simp
  then show ?thesis by (simp add: r Y)
qed

lemma trigger_price_per_sqm_changed:
  assumes t: "trigger_update_listing_area W areas now new = Inr r"
    and ne: "price_per_sqm r \<noteq> price_per_sqm new"
  shows "price_per_sqm new = None \<and>
         (\<exists>p a. price new = Some p \<and> area_sqm new = Some a \<and> 0 < p \<and> 0 < a)"
proof -
  from t obtain n2 n3 where
    n2: "price_per_sqm_block new = Inr n2" and
    n3: "yearly_yield_block n2 = Inr n3" and
    r: "r = n3\<lparr>updated_at := Some now\<rparr>"
    by (rule trigger_blocks)
  obtain Y where Y: "n3 = n2\<lparr>yearly_yield := Y\<rparr>"
    using yearly_yield_block_frame[OF n3] by blast
  have "price_per_sqm n2 \<noteq> price_per_sqm new" using ne by (simp add: r Y)
  from price_per_sqm_block_changed[OF n2 this] show ?thesis .
qed

lemma trigger_yearly_yield_computed:
  assumes t: "trigger_update_listing_area W areas now new = Inr r"
    and "listing_type new = Some ''rent''" and "monthly_rent new = Some m"
    and "price new = Some p" and "0 < m" and "0 < p"
  shows "yearly_yield r = Some (round_to_scale 2 ((m * 12 / p) * 100))"
proof -
  from t obtain n2 n3 where
    n2: "price_per_sqm_block new = Inr n2" and
    n3: "yearly_yield_block n2 = Inr n3" and
    r: "r = n3\<lparr>updated_at := Some now\<rparr>"
    by (rule trigger_blocks)
  obtain P where P: "n2 = new\<lparr>price_per_sqm := P\<rparr>"
    using price_per_sqm_block_frame[OF n2] by blast
  have "yearly_yield n3 = Some (round_to_scale 2 ((m * 12 / p) * 100))"
    using yearly_yield_block_computed[OF n3, of m p] assms(2-) by (simp add: P)
  then show ?thesis by (simp add: r)
qed

lemma update_rows_length:
  "update_rows trg wh setc tbl = Inr tbl' \<Longrightarrow> length tbl' = length tbl"
  by (induction tbl arbitrary: tbl') (auto split: if_splits sum.splits)

lemma update_rows_nth:
  "update_rows trg wh setc tbl = Inr tbl' \<Longrightarrow> i < length tbl \<Longrightarrow>
     (if wh (tbl ! i) then trg (setc (tbl ! i)) = Inr (tbl' ! i) else tbl' ! i = tbl ! i)"
proof (induction tbl arbitrary: tbl' i)
  case Nil
  then show ?case by simp
next
  case (Cons r rs)
  then show ?case
    by (cases i) (auto split: if_splits sum.splits)
qed

lemma update_listings_Inr:
  "update_listings W scan now wh setc tbl = Inr tbl' \<Longrightarrow>
     update_rows (trigger_update_listing_area W scan now) wh setc tbl = Inr tbl' \<and>
     distinct (map url_hash tbl') \<and> distinct (map id_col tbl')"
  by (auto simp: update_listings_def split: sum.splits if_splits)

text \<open>
  C2, as the trigger computes it. The row the trigger returns is the row that is stored.
  When the incoming \<^verbatim>\<open>price_per_sqm\<close> is NULL and \<^verbatim>\<open>price\<close> and \<^verbatim>\<open>area_sqm\<close> are both
  strictly positive, the stored \<^verbatim>\<open>price_per_sqm\<close> is \<^verbatim>\<open>price / area_sqm\<close> rounded to the
  two decimals of its column; and the trigger changes \<^verbatim>\<open>price_per_sqm\<close> only when the
  incoming value is NULL and both \<^verbatim>\<open>price\<close> and \<^verbatim>\<open>area_sqm\<close> are strictly positive.
  For \<^verbatim>\<open>price = 450000\<close> and \<^verbatim>\<open>area_sqm = 90\<close> the stored value is 5000.
\<close>

theorem price_per_sqm_on_write:
  assumes "trigger_update_listing_area st_within scan now new = Inr r"
  shows "(\<forall>p a. price new = Some p \<and> area_sqm new = Some a \<and> 0 < p \<and> 0 < a \<and>
                 price_per_sqm new = None
            \<longrightarrow> price_per_sqm r = Some (round_to_scale 2 (p / a))) \<and>
         (price_per_sqm r \<noteq> price_per_sqm new
            \<longrightarrow> price_per_sqm new = None \<and>
                (\<exists>p a. price new = Some p \<and> area_sqm new = Some a \<and> 0 < p \<and> 0 < a))"
  using trigger_price_per_sqm_computed[OF assms] trigger_price_per_sqm_changed[OF assms]
  by blast

lemma round_450000_90: "round_to_scale 2 (450000 / 90) = 5000"
  by code_simp

lemma sample_insert_trigger:
  "trigger_update_listing_area never_within no_areas 7 sample_listing =
     Inr (sample_listing\<lparr>price_per_sqm := Some 5000, updated_at := Some 7\<rparr>)"
  by code_simp

theorem price_per_sqm_on_write_witness:
  "trigger_update_listing_area never_within no_areas 7 sample_listing =
     Inr (sample_listing\<lparr>price_per_sqm := Some 5000, updated_at := Some 7\<rparr>) \<and>
   price sample_listing = Some 450000 \<and> area_sqm sample_listing = Some 90 \<and>
   price_per_sqm sample_listing = None \<and>
   price_per_sqm (sample_listing\<lparr>price_per_sqm := Some 5000, updated_at := Some 7\<rparr>)
     = Some (round_to_scale 2 (450000 / 90)) \<and>
   round_to_scale 2 (450000 / 90) = 5000"
  using price_per_sqm_on_write[OF sample_insert_trigger] round_450000_90 sample_insert_trigger
  by (simp add: sample_listing_def)

text \<open>
  C2 as stated fails on an update: the row stored with \<^verbatim>\<open>price_per_sqm = 5000\<close> keeps
  that value when its price is set to 900000, while \<^verbatim>\<open>price / area_sqm\<close> is then 10000.
\<close>

theorem price_per_sqm_stale_counterexample:
  "update_listings never_within no_areas 9 (where_url_hash ''a1'') (set_price (Some 900000))
     [sample_listing\<lparr>price_per_sqm := Some 5000\<rparr>]
   = Inr [sample_listing\<lparr>price := Some 900000, price_per_sqm := Some 5000,
                        updated_at := Some 9\<rparr>] \<and>
   (5000 :: rat) \<noteq> 900000 / 90"
  by code_simp

text \<open>
  C3, as the trigger computes it: for a row with \<^verbatim>\<open>listing_type = 'rent'\<close>, a strictly
  positive \<^verbatim>\<open>monthly_rent\<close> and a strictly positive \<^verbatim>\<open>price\<close>, the stored
  \<^verbatim>\<open>yearly_yield\<close> is \<^verbatim>\<open>(monthly_rent * 12 / price) * 100\<close> rounded to the two decimals
  of its column. For \<^verbatim>\<open>monthly_rent = 1500\<close> and \<^verbatim>\<open>price = 300000\<close> it is 6.
\<close>

theorem yearly_yield_on_write:
  assumes "trigger_update_listing_area st_within scan now new = Inr r"
    and "listing_type new = Some ''rent''"
    and "monthly_rent new = Some m" and "price new = Some p"
    and "0 < m" and "0 < p"
  shows "yearly_yield r = Some (round_to_scale 2 ((m * 12 / p) * 100))"
  using assms by (rule trigger_yearly_yield_computed)

lemma round_yield_1500_300000: "round_to_scale 2 ((1500 * 12 / 300000) * 100) = 6"
  by code_simp

lemma sample_rental_trigger:
  "trigger_update_listing_area never_within no_areas 7 sample_rental =
     Inr (sample_rental\<lparr>price_per_sqm := Some (333333 / 100), yearly_yield := Some 6,
                       updated_at := Some 7\<rparr>)"
  by code_simp

theorem yearly_yield_on_write_witness:
  "trigger_update_listing_area never_within no_areas 7 sample_rental =
     Inr (sample_rental\<lparr>price_per_sqm := Some (333333 / 100), yearly_yield := Some 6,
                       updated_at := Some 7\<rparr>) \<and>
   listing_type sample_rental = Some ''rent'' \<and>
   monthly_rent sample_rental = Some 1500 \<and> price sample_rental = Some 300000 \<and>
   yearly_yield (sample_rental\<lparr>price_per_sqm := Some (333333 / 100), yearly_yield := Some 6,
                              updated_at := Some 7\<rparr>)
     = Some (round_to_scale 2 ((1500 * 12 / 300000) * 100)) \<and>
   round_to_scale 2 ((1500 * 12 / 300000) * 100) = 6"
proof -
  have lt: "listing_type sample_rental = Some ''rent''"
    and mr: "monthly_rent sample_rental = Some 1500"
    and pr: "price sample_rental = Some 300000"
    by (simp_all add: sample_rental_def sample_listing_def)
  from yearly_yield_on_write[OF sample_rental_trigger lt mr pr]
  show ?thesis
    using sample_rental_trigger lt mr pr round_yield_1500_300000 by simp
qed

text \<open>
  C3 as stated fails where the quotient has more than two decimals: with
  \<^verbatim>\<open>monthly_rent = 1000\<close> and \<^verbatim>\<open>price = 700000\<close> the stored yield is 1.71, while
  \<^verbatim>\<open>(1000 * 12 / 700000) * 100\<close> is 12/7.
\<close>

theorem yearly_yield_rounded_counterexample:
  "trigger_update_listing_area never_within no_areas 7
     (sample_rental\<lparr>price := Some 700000, monthly_rent := Some 1000\<rparr>)
   = Inr (sample_rental\<lparr>price := Some 700000, monthly_rent := Some 1000,
            price_per_sqm := Some (777778 / 100), yearly_yield := Some (171 / 100),
            updated_at := Some 7\<rparr>) \<and>
   (171 / 100 :: rat) \<noteq> (1000 * 12 / 700000) * 100"
  by code_simp

text \<open>
  A rental row whose \<^verbatim>\<open>price\<close> is its monthly rent has a yield of 1200, which does not
  fit \<^verbatim>\<open>DECIMAL(5,2)\<close>: the trigger raises and the row is not written.
\<close>

lemma yearly_yield_overflow_example:
  "trigger_update_listing_area never_within no_areas 7 (sample_rental\<lparr>price := Some 1500\<rparr>)
   = Inl numeric_field_overflow"
  by code_simp

text \<open>
  C9. The trigger changes \<^verbatim>\<open>price_per_sqm\<close> only when the incoming value is NULL; and
  an \<^verbatim>\<open>UPDATE\<close> whose \<^verbatim>\<open>SET\<close> list does not assign \<^verbatim>\<open>price_per_sqm\<close> leaves the
  non-NULL \<^verbatim>\<open>price_per_sqm\<close> of every stored row as it was, whatever it sets
  \<^verbatim>\<open>price\<close> and \<^verbatim>\<open>area_sqm\<close> to.
\<close>

theorem price_per_sqm_kept_when_present:
  "(trigger_update_listing_area st_within scan now new = Inr r \<longrightarrow>
      price_per_sqm r \<noteq> price_per_sqm new \<longrightarrow> price_per_sqm new = None) \<and>
   (update_listings st_within scan now wh setc tbl = Inr tbl' \<longrightarrow>
      (\<forall>x. price_per_sqm (setc x) = price_per_sqm x) \<longrightarrow>
      i < length tbl \<longrightarrow> price_per_sqm (tbl ! i) = Some v \<longrightarrow>
      i < length tbl' \<and> price_per_sqm (tbl' ! i) = Some v)"
proof (intro conjI impI)
  assume "trigger_update_listing_area st_within scan now new = Inr r"
    and "price_per_sqm r \<noteq> price_per_sqm new"
  then show "price_per_sqm new = None"
    using trigger_price_per_sqm_changed by blast
next
  assume u: "update_listings st_within scan now wh setc tbl = Inr tbl'"
    and i: "i < length tbl"
  from update_listings_Inr[OF u]
  have ur: "update_rows (trigger_update_listing_area st_within scan now) wh setc tbl = Inr tbl'"
    by simp
  from update_rows_length[OF ur] i show "i < length tbl'" by simp
next
  assume u: "update_listings st_within scan now wh setc tbl = Inr tbl'"
    and s: "\<forall>x. price_per_sqm (setc x) = price_per_sqm x"
    and i: "i < length tbl" and v: "price_per_sqm (tbl ! i) = Some v"
  from update_listings_Inr[OF u]
  have ur: "update_rows (trigger_update_listing_area st_within scan now) wh setc tbl = Inr tbl'"
    by simp
  show "price_per_sqm (tbl' ! i) = Some v"
  proof (cases "wh (tbl ! i)")
    case True
    with update_rows_nth[OF ur i]
    have t: "trigger_update_listing_area st_within scan now (setc (tbl ! i)) = Inr (tbl' ! i)"
      by simp
    have "price_per_sqm (setc (tbl ! i)) = Some v" using s v by simp
    with trigger_price_per_sqm_changed[OF t] show ?thesis by fastforce
  next
    case False
    with update_rows_nth[OF ur i] v show ?thesis by simp
  qed
qed

lemma sample_update_price_area:
  "update_listings never_within no_areas 9 (where_url_hash ''a1'')
     (set_price_area (Some 900000) (Some 100)) [sample_listing\<lparr>price_per_sqm := Some 5000\<rparr>]
   = Inr [sample_listing\<lparr>price := Some 900000, area_sqm := Some 100,
            price_per_sqm := Some 5000, updated_at := Some 9\<rparr>]"
  by code_simp

lemma sample_insert_trigger_at_9:
  "trigger_update_listing_area never_within no_areas 9 sample_listing =
     Inr (sample_listing\<lparr>price_per_sqm := Some 5000, updated_at := Some 9\<rparr>)"
  by code_simp

theorem price_per_sqm_kept_when_present_witness:
  "update_listings never_within no_areas 9 (where_url_hash ''a1'')
     (set_price_area (Some 900000) (Some 100)) [sample_listing\<lparr>price_per_sqm := Some 5000\<rparr>]
   = Inr [sample_listing\<lparr>price := Some 900000, area_sqm := Some 100,
            price_per_sqm := Some 5000, updated_at := Some 9\<rparr>] \<and>
   (\<forall>x. price_per_sqm (set_price_area (Some 900000) (Some 100) x) = price_per_sqm x) \<and>
   (0 :: nat) < length [sample_listing\<lparr>price_per_sqm := Some 5000\<rparr>] \<and>
   price_per_sqm ([sample_listing\<lparr>price_per_sqm := Some 5000\<rparr>] ! 0) = Some 5000 \<and>
   price_per_sqm ([sample_listing\<lparr>price := Some 900000, area_sqm := Some 100,
            price_per_sqm := Some 5000, updated_at := Some 9\<rparr>] ! 0) = Some 5000 \<and>
   trigger_update_listing_area never_within no_areas 9 sample_listing =
     Inr (sample_listing\<lparr>price_per_sqm := Some 5000, updated_at := Some 9\<rparr>) \<and>
   price_per_sqm (sample_listing\<lparr>price_per_sqm := Some 5000, updated_at := Some 9\<rparr>)
     \<noteq> price_per_sqm sample_listing \<and>
   price_per_sqm sample_listing = None"
proof -
  have s: "\<forall>x. price_per_sqm (set_price_area (Some 900000) (Some 100) x) = price_per_sqm x"
    by (simp add: set_price_area_def)
  have n: "price_per_sqm sample_listing = None" by (simp add: sample_listing_def)
  from price_per_sqm_kept_when_present[of never_within no_areas 9 sample_listing
      "sample_listing\<lparr>price_per_sqm := Some 5000, updated_at := Some 9\<rparr>"
      "where_url_hash ''a1''" "set_price_area (Some 900000) (Some 100)"
      "[sample_listing\<lparr>price_per_sqm := Some 5000\<rparr>]"
      "[sample_listing\<lparr>price := Some 900000, area_sqm := Some 100,
            price_per_sqm := Some 5000, updated_at := Some 9\<rparr>]" 0 5000]
  show ?thesis
    using sample_update_price_area sample_insert_trigger_at_9 s n by simp
qed


section \<open>Area assignment\<close>

lemma insert_listing_raises:
  assumes "trigger_update_listing_area st_within areas now new = Inl e"
  shows "insert_listing st_within areas now new tbl = Inl e"
  using assms by (simp add: insert_listing_def)

lemma trigger_raises_in_area_block:
  assumes "coordinates new = Some c" and "area_id new = None"
  shows "trigger_update_listing_area st_within areas now new = Inl undefined_function"
  using detect_area_block_raises[OF assms, of st_within areas]
  by (simp add: trigger_update_listing_area_def)

text \<open>
  C4, as the trigger behaves. The first block passes the \<^verbatim>\<open>double precision\<close> results of
  \<^verbatim>\<open>ST_Y\<close> and \<^verbatim>\<open>ST_X\<close> to a function declared on \<^verbatim>\<open>(DECIMAL, DECIMAL)\<close>; the call does
  not resolve. Every write of a row with coordinates and no area raises, whether one
  polygon contains the point or none does: no area is assigned, none is left NULL, and
  an \<^verbatim>\<open>INSERT\<close> of the row fails.
\<close>

theorem area_assignment_raises:
  assumes "coordinates new = Some c" and "area_id new = None"
  shows "trigger_update_listing_area st_within areas now new = Inl undefined_function \<and>
         insert_listing st_within areas now new tbl = Inl undefined_function"
  using trigger_raises_in_area_block[OF assms, of st_within areas now]
  by (simp add: insert_listing_raises)

theorem area_assignment_raises_witness:
  "coordinates listing_in_ville_marie
     = Some (Geom 4326 (XY (- 735673 / 10000) (455017 / 10000))) \<and>
   area_id listing_in_ville_marie = None \<and>
   sample_areas = [ville_marie, plateau] \<and>
   strictly_in_box (XY (- 735673 / 10000) (455017 / 10000)) (shape (geometry ville_marie)) \<and>
   \<not> strictly_in_box (XY (- 735673 / 10000) (455017 / 10000)) (shape (geometry plateau)) \<and>
   trigger_update_listing_area strictly_in_box sample_areas 7 listing_in_ville_marie
     = Inl undefined_function \<and>
   insert_listing strictly_in_box sample_areas 7 listing_in_ville_marie []
     = Inl undefined_function \<and>
   coordinates listing_outside = Some (Geom 4326 (XY 0 0)) \<and>
   area_id listing_outside = None \<and>
   \<not> strictly_in_box (XY 0 0) (shape (geometry ville_marie)) \<and>
   \<not> strictly_in_box (XY 0 0) (shape (geometry plateau)) \<and>
   trigger_update_listing_area strictly_in_box sample_areas 7 listing_outside
     = Inl undefined_function"
proof -
  have c1: "coordinates listing_in_ville_marie
              = Some (Geom 4326 (XY (- 735673 / 10000) (455017 / 10000)))"
    and a1: "area_id listing_in_ville_marie = None"
    and c2: "coordinates listing_outside = Some (Geom 4326 (XY 0 0))"
    and a2: "area_id listing_outside = None"
    by (simp_all add: listing_in_ville_marie_def listing_outside_def sample_listing_def)
  have g: "strictly_in_box (XY (- 735673 / 10000) (455017 / 10000)) (shape (geometry ville_marie))"
    "\<not> strictly_in_box (XY (- 735673 / 10000) (455017 / 10000)) (shape (geometry plateau))"
    "\<not> strictly_in_box (XY 0 0) (shape (geometry ville_marie))"
    "\<not> strictly_in_box (XY 0 0) (shape (geometry plateau))"
    by (simp_all add: ville_marie_def plateau_def)
  from area_assignment_raises[OF c1 a1, of strictly_in_box sample_areas 7 "[]"]
    area_assignment_raises[OF c2 a2, of strictly_in_box sample_areas 7 "[]"]
  show ?thesis using c1 a1 c2 a2 g sample_areas_def by simp
qed

lemma first_area_within_mixed_srid:
  assumes "areas \<noteq> []" and "\<forall>b\<in>set areas. srid (geometry b) \<noteq> srid pt"
  shows "first_area_within st_within pt areas = Inl mixed_srid"
proof (cases areas)
  case Nil
  with assms(1) show ?thesis by simp
next
  case (Cons b rest)
  with assms(2) have "srid pt \<noteq> srid (geometry b)" by auto
  with Cons show ?thesis by (simp add: ST_Within_def)
qed

text \<open>
  C5, as the code behaves. Called with \<^verbatim>\<open>NUMERIC\<close> arguments, the function compares
  \<^verbatim>\<open>ST_Point(lon, lat)\<close>, of SRID 0, with the SRID-4326 geometries of \<^verbatim>\<open>areas\<close>: when a
  row of the table contains the point (one row, or several that overlap) the call
  raises on the mixed SRIDs and returns no id. In the trigger the call does not even
  resolve: for a row with these coordinates and no area the first block raises, so no
  polygon is assigned, in insertion order or any other.
\<close>

theorem overlapping_areas_raise:
  assumes "a \<in> set areas" and "st_within (XY lon lat) (shape (geometry a))"
    and "\<forall>b\<in>set areas. srid (geometry b) = 4326"
    and "coordinates new = Some (Geom 4326 (XY lon lat))" and "area_id new = None"
  shows "detect_area_from_coordinates st_within areas lat lon = Inl mixed_srid \<and>
         detect_area_block st_within areas new = Inl undefined_function"
proof
  from assms(1) have "areas \<noteq> []" by auto
  moreover have "\<forall>b\<in>set areas. srid (geometry b) \<noteq> srid (ST_Point lon lat)"
    using assms(3) by (simp add: ST_Point_def)
  ultimately show "detect_area_from_coordinates st_within areas lat lon = Inl mixed_srid"
    unfolding detect_area_from_coordinates_def by (rule first_area_within_mixed_srid)
  show "detect_area_block st_within areas new = Inl undefined_function"
    using assms(4,5) by (rule detect_area_block_raises)
qed

theorem overlapping_areas_raise_witness:
  "sample_areas = [ville_marie, plateau] \<and>
   strictly_in_box (XY (- 7358 / 100) (45515 / 1000)) (shape (geometry ville_marie)) \<and>
   strictly_in_box (XY (- 7358 / 100) (45515 / 1000)) (shape (geometry plateau)) \<and>
   srid (geometry ville_marie) = 4326 \<and> srid (geometry plateau) = 4326 \<and>
   coordinates listing_in_overlap = Some (Geom 4326 (XY (- 7358 / 100) (45515 / 1000))) \<and>
   area_id listing_in_overlap = None \<and>
   detect_area_from_coordinates strictly_in_box sample_areas (45515 / 1000) (- 7358 / 100)
     = Inl mixed_srid \<and>
   detect_area_block strictly_in_box sample_areas listing_in_overlap = Inl undefined_function \<and>
   trigger_update_listing_area strictly_in_box sample_areas 7 listing_in_overlap
     = Inl undefined_function"
proof -
  have m: "ville_marie \<in> set sample_areas" by (simp add: sample_areas_def)
  have w: "strictly_in_box (XY (- 7358 / 100) (45515 / 1000)) (shape (geometry ville_marie))"
    "strictly_in_box (XY (- 7358 / 100) (45515 / 1000)) (shape (geometry plateau))"
    by (simp_all add: ville_marie_def plateau_def)
  have s: "srid (geometry ville_marie) = 4326" "srid (geometry plateau) = 4326"
    by (simp_all add: ville_marie_def plateau_def)
  then have sa: "\<forall>b\<in>set sample_areas. srid (geometry b) = 4326"
    by (simp add: sample_areas_def)
  have c: "coordinates listing_in_overlap = Some (Geom 4326 (XY (- 7358 / 100) (45515 / 1000)))"
    and a: "area_id listing_in_overlap = None"
    by (simp_all add: listing_in_overlap_def sample_listing_def)
  from overlapping_areas_raise[where st_within = strictly_in_box and areas = sample_areas
      and a = ville_marie and new = listing_in_overlap, OF m w(1) sa c a]
  show ?thesis
    using w s c a sample_areas_def
      trigger_raises_in_area_block[OF c a, of strictly_in_box sample_areas 7]
    by simp
qed

section \<open>Uniqueness of the key and convergence of the upsert\<close>

lemma coerce_listing_other_columns:
  "coerce_listing (r\<lparr>id_col := i, scraped_at := s, updated_at := u\<rparr>) =
     (case coerce_listing r of
        Inl e \<Rightarrow> Inl e
      | Inr c \<Rightarrow> Inr (c\<lparr>id_col := i, scraped_at := s, updated_at := u\<rparr>))"
  by (simp add: coerce_listing_def and_then_def split: sum.splits)

lemma coerce_listing_key:
  "coerce_listing r = Inr c \<Longrightarrow> to_varchar 64 (url_hash r) = Inr (url_hash c)"
  by (auto simp: coerce_listing_def and_then_def split: sum.splits)

lemma new_listing_key:
  assumes "new_listing fresh_id now v = Inr c"
  shows "to_varchar 64 (identity_key v) = Inr (url_hash c)"
proof (cases "rec_url v")
  case None
  with assms show ?thesis by (simp add: new_listing_def)
next
  case (Some u)
  with assms coerce_listing_key show ?thesis by (fastforce simp: new_listing_def)
qed

lemma new_listing_again:
  assumes "new_listing id1 now1 v = Inr c"
  shows "new_listing id2 now2 v
           = Inr (c\<lparr>id_col := id2, scraped_at := Some now2, updated_at := Some now2\<rparr>)"
proof (cases "rec_url v")
  case None
  with assms show ?thesis by (simp add: new_listing_def)
next
  case (Some u)
  let ?row = "\<lambda>i n.
     \<lparr>id_col = i, url_hash = identity_key v, url = u, title = rec_title v,
      price = rec_price v, currency = rec_currency v, price_per_sqm = None,
      area_sqm = rec_area_sqm v, bedrooms = rec_bedrooms v,
      bathrooms = rec_bathrooms v, property_type = None,
      listing_type = rec_listing_type v, address = rec_address v,
      coordinates = map_option (Geom 4326) (rec_coordinates v), area_id = None,
      site_domain = None, published_date = None, scraped_at = Some n,
      updated_at = Some n, raw_data = None, is_active = Some True,
      yearly_yield = None, monthly_rent = None\<rparr>"
  have 1: "coerce_listing (?row id1 now1) = Inr c"
    using assms Some by (simp add: new_listing_def)
  have 2: "?row id2 now2
             = (?row id1 now1)\<lparr>id_col := id2, scraped_at := Some now2, updated_at := Some now2\<rparr>"
    by simp
  have "coerce_listing ((?row id1 now1)\<lparr>id_col := id2, scraped_at := Some now2,
                            updated_at := Some now2\<rparr>)
          = Inr (c\<lparr>id_col := id2, scraped_at := Some now2, updated_at := Some now2\<rparr>)"
    by (simp only: coerce_listing_other_columns 1 sum.case)
  then have "coerce_listing (?row id2 now2)
          = Inr (c\<lparr>id_col := id2, scraped_at := Some now2, updated_at := Some now2\<rparr>)"
    by (simp only: 2)
  with Some show ?thesis by (simp add: new_listing_def)
qed

lemma trigger_keeps_key:
  assumes "trigger_update_listing_area st_within areas now new = Inr r"
  shows "url_hash r = url_hash new"
proof -
  from trigger_frame[OF assms] obtain P Y where
    "r = new\<lparr>price_per_sqm := P, yearly_yield := Y, updated_at := Some now\<rparr>"
    by blast
  then show ?thesis by simp
qed

lemma trigger_keeps_id:
  assumes "trigger_update_listing_area st_within areas now new = Inr r"
  shows "id_col r = id_col new"
proof -
  from trigger_frame[OF assms] obtain P Y where
    "r = new\<lparr>price_per_sqm := P, yearly_yield := Y, updated_at := Some now\<rparr>"
    by blast
  then show ?thesis by simp
qed

lemma trigger_keeps_fields:
  assumes "trigger_update_listing_area st_within areas now new = Inr r"
  shows "has_fields_of c r = has_fields_of c new"
proof -
  from trigger_frame[OF assms] obtain P Y where
    "r = new\<lparr>price_per_sqm := P, yearly_yield := Y, updated_at := Some now\<rparr>"
    by blast
  then show ?thesis by (simp add: has_fields_of_def)
qed

lemma set_mutable_fields_key: "url_hash (set_mutable_fields c r) = url_hash r"
  by (simp add: set_mutable_fields_def)

lemma set_mutable_fields_id: "id_col (set_mutable_fields c r) = id_col r"
  by (simp add: set_mutable_fields_def)

lemma set_mutable_fields_has: "has_fields_of c (set_mutable_fields c r)"
  by (simp add: set_mutable_fields_def has_fields_of_def)

lemma set_mutable_fields_same:
  "has_fields_of c r \<Longrightarrow> set_mutable_fields c r = r"
  by (simp add: has_fields_of_def set_mutable_fields_def)

lemma set_mutable_fields_other_columns:
  "set_mutable_fields (c\<lparr>id_col := i, scraped_at := s, updated_at := u\<rparr>)
     = set_mutable_fields c"
  by (rule ext) (simp add: set_mutable_fields_def)

lemma has_fields_of_self: "has_fields_of c c"
  by (simp add: has_fields_of_def)

lemma update_rows_keys:
  assumes "\<And>x y. trg x = Inr y \<Longrightarrow> url_hash y = url_hash x"
    and "\<And>x. url_hash (setc x) = url_hash x"
  shows "update_rows trg wh setc tbl = Inr tbl' \<Longrightarrow> map url_hash tbl' = map url_hash tbl"
proof (induction tbl arbitrary: tbl')
  case Nil
  then show ?case by simp
next
  case (Cons r rs)
  show ?case
  proof (cases "wh r")
    case True
    with Cons.prems obtain r' rs' where
      a: "trg (setc r) = Inr r'" and b: "update_rows trg wh setc rs = Inr rs'"
      and c: "tbl' = r' # rs'"
      by (auto split: sum.splits)
    from assms(1)[OF a] assms(2) have "url_hash r' = url_hash r" by simp
    with Cons.IH[OF b] c show ?thesis by simp
  next
    case False
    with Cons.prems obtain rs' where
      b: "update_rows trg wh setc rs = Inr rs'" and c: "tbl' = r # rs'"
      by (auto split: sum.splits)
    with Cons.IH[OF b] show ?thesis by simp
  qed
qed

lemma update_rows_ids:
  assumes "\<And>x y. trg x = Inr y \<Longrightarrow> id_col y = id_col x"
    and "\<And>x. id_col (setc x) = id_col x"
  shows "update_rows trg wh setc tbl = Inr tbl' \<Longrightarrow> map id_col tbl' = map id_col tbl"
proof (induction tbl arbitrary: tbl')
  case Nil
  then show ?case by simp
next
  case (Cons r rs)
  show ?case
  proof (cases "wh r")
    case True
    with Cons.prems obtain r' rs' where
      a: "trg (setc r) = Inr r'" and b: "update_rows trg wh setc rs = Inr rs'"
      and c: "tbl' = r' # rs'"
      by (auto split: sum.splits)
    from assms(1)[OF a] assms(2) have "id_col r' = id_col r" by simp
    with Cons.IH[OF b] c show ?thesis by simp
  next
    case False
    with Cons.prems obtain rs' where
      b: "update_rows trg wh setc rs = Inr rs'" and c: "tbl' = r # rs'"
      by (auto split: sum.splits)
    with Cons.IH[OF b] show ?thesis by simp
  qed
qed

lemma insert_listing_Inr:
  assumes "insert_listing st_within scan now new tbl = Inr tbl'"
  shows "\<exists>r. tbl' = tbl @ [r] \<and> trigger_update_listing_area st_within scan now new = Inr r \<and>
             url_hash r = url_hash new \<and> url_hash new \<notin> set (map url_hash tbl)"
proof -
  from assms obtain r where
    t: "trigger_update_listing_area st_within scan now new = Inr r"
    and u: "url_hash r \<notin> set (map url_hash tbl)" and e: "tbl' = tbl @ [r]"
    by (auto simp: insert_listing_def split: sum.splits if_splits)
  from trigger_keeps_key[OF t] u e t show ?thesis by simp
qed

lemma filter_key_single:
  "distinct (map f xs) \<Longrightarrow> x \<in> set xs \<Longrightarrow> filter (\<lambda>y. f y = f x) xs = [x]"
proof (induction xs)
  case Nil
  then show ?case by simp
next
  case (Cons y ys)
  show ?case
  proof (cases "y = x")
    case True
    with Cons.prems have "\<forall>z\<in>set ys. f z \<noteq> f x" by (auto simp: image_iff)
    then have "filter (\<lambda>y. f y = f x) ys = []" by (simp add: filter_empty_conv)
    with True show ?thesis by simp
  next
    case False
    with Cons.prems have "x \<in> set ys" and "f y \<noteq> f x" by auto
    with Cons show ?thesis by simp
  qed
qed

lemma update_rows_selected:
  assumes "update_rows trg wh setc tbl = Inr tbl'" and "r' \<in> set tbl'"
  shows "(\<exists>r\<in>set tbl. wh r \<and> trg (setc r) = Inr r') \<or> (r' \<in> set tbl \<and> \<not> wh r')"
proof -
  from assms(2) obtain i where i: "i < length tbl'" and r': "r' = tbl' ! i"
    by (auto simp: in_set_conv_nth)
  from update_rows_length[OF assms(1)] i have il: "i < length tbl" by simp
  from update_rows_nth[OF assms(1) il] r' il show ?thesis
    by (cases "wh (tbl ! i)") auto
qed

lemma price_per_sqm_block_again:
  assumes "price_per_sqm_block x = Inr y"
    and "price z = price x" and "area_sqm z = area_sqm x"
    and "price_per_sqm z = price_per_sqm y"
  shows "price_per_sqm_block z = Inr z"
  using assms
  by (auto simp: price_per_sqm_block_def split: option.splits if_splits sum.splits)

lemma yearly_yield_block_again:
  assumes "yearly_yield_block x = Inr y"
    and "listing_type z = listing_type x" and "monthly_rent z = monthly_rent x"
    and "price z = price x"
  shows "\<exists>z'. yearly_yield_block z = Inr z'"
  using assms
  by (auto simp: yearly_yield_block_def split: option.splits if_splits sum.splits)

lemma update_rows_succeeds:
  "(\<And>r. r \<in> set tbl \<Longrightarrow> wh r \<Longrightarrow> \<exists>r'. trg (setc r) = Inr r') \<Longrightarrow>
     \<exists>tbl'. update_rows trg wh setc tbl = Inr tbl'"
proof (induction tbl)
  case Nil
  then show ?case by simp
next
  case (Cons r rs)
  from Cons.IH Cons.prems obtain rs' where rs': "update_rows trg wh setc rs = Inr rs'"
    by auto
  show ?case
  proof (cases "wh r")
    case True
    with Cons.prems obtain r' where "trg (setc r) = Inr r'" by auto
    with True rs' show ?thesis by simp
  next
    case False
    with rs' show ?thesis by simp
  qed
qed

lemma trigger_again:
  assumes t: "trigger_update_listing_area st_within areas now new = Inr r"
  shows "\<exists>r'. trigger_update_listing_area st_within areas' now' r = Inr r'"
proof -
  from t obtain n2 n3 where
    ok: "coordinates new = None \<or> area_id new \<noteq> None" and
    n2: "price_per_sqm_block new = Inr n2" and
    n3: "yearly_yield_block n2 = Inr n3" and
    r: "r = n3\<lparr>updated_at := Some now\<rparr>"
    by (rule trigger_blocks)
  obtain P where P: "n2 = new\<lparr>price_per_sqm := P\<rparr>"
    using price_per_sqm_block_frame[OF n2] by blast
  obtain Y where Y: "n3 = n2\<lparr>yearly_yield := Y\<rparr>"
    using yearly_yield_block_frame[OF n3] by blast
  have "coordinates r = None \<or> area_id r \<noteq> None"
    using ok by (simp add: r Y P)
  then have d: "detect_area_block st_within areas' r = Inr r"
    by (rule detect_area_block_passes)
  have p: "price_per_sqm_block r = Inr r"
    by (rule price_per_sqm_block_again[OF n2]) (simp_all add: r Y P)
  have "\<exists>z'. yearly_yield_block r = Inr z'"
    by (rule yearly_yield_block_again[OF n3]) (simp_all add: r Y P)
  then obtain m3 where m3: "yearly_yield_block r = Inr m3" by blast
  show ?thesis
    by (simp add: trigger_update_listing_area_def d p m3)
qed

lemma upsert_listing_cases:
  assumes "upsert_listing st_within areas now fresh_id v tbl = Inr tbl'"
  obtains c where "new_listing fresh_id now v = Inr c"
    and "(if url_hash c \<in> set (map url_hash tbl)
          then update_listings st_within areas now (where_url_hash (url_hash c))
                 (set_mutable_fields c) tbl
          else insert_listing st_within areas now c tbl) = Inr tbl'"
proof -
  from assms obtain c where c: "new_listing fresh_id now v = Inr c"
    by (cases "new_listing fresh_id now v") (simp_all add: upsert_listing_def and_then_def)
  with assms have
    "(if url_hash c \<in> set (map url_hash tbl)
      then update_listings st_within areas now (where_url_hash (url_hash c))
             (set_mutable_fields c) tbl
      else insert_listing st_within areas now c tbl) = Inr tbl'"
    by (simp add: upsert_listing_def and_then_def)
  with c that show thesis by blast
qed

lemma upsert_listing_keys:
  assumes d: "distinct (map url_hash tbl)"
    and u: "upsert_listing st_within areas now fresh_id v tbl = Inr tbl'"
    and n: "new_listing fresh_id now v = Inr c"
  shows "distinct (map url_hash tbl') \<and> url_hash c \<in> set (map url_hash tbl')"
proof -
  from u obtain c' where c': "new_listing fresh_id now v = Inr c'"
    and br: "(if url_hash c' \<in> set (map url_hash tbl)
          then update_listings st_within areas now (where_url_hash (url_hash c'))
                 (set_mutable_fields c') tbl
          else insert_listing st_within areas now c' tbl) = Inr tbl'"
    by (rule upsert_listing_cases)
  from n c' have cc: "c' = c" by simp
  have upd: "url_hash c \<in> set (map url_hash tbl) \<Longrightarrow>
           update_listings st_within areas now (where_url_hash (url_hash c))
             (set_mutable_fields c) tbl = Inr tbl'"
    and ins: "url_hash c \<notin> set (map url_hash tbl) \<Longrightarrow>
           insert_listing st_within areas now c tbl = Inr tbl'"
    using br by (simp_all add: cc split: if_splits)
  show ?thesis
  proof (cases "url_hash c \<in> set (map url_hash tbl)")
    case True
    from update_listings_Inr[OF upd[OF True]]
    have ur: "update_rows (trigger_update_listing_area st_within areas now)
                (where_url_hash (url_hash c)) (set_mutable_fields c) tbl = Inr tbl'"
      and dd: "distinct (map url_hash tbl')"
      by simp_all
    have "map url_hash tbl' = map url_hash tbl"
    proof (rule update_rows_keys[OF _ _ ur])
      show "\<And>x y. trigger_update_listing_area st_within areas now x = Inr y
                   \<Longrightarrow> url_hash y = url_hash x"
        by (rule trigger_keeps_key)
      show "\<And>x. url_hash (set_mutable_fields c x) = url_hash x"
        by (rule set_mutable_fields_key)
    qed
    with True dd show ?thesis by simp
  next
    case False
    from insert_listing_Inr[OF ins[OF False]] obtain r where
      "tbl' = tbl @ [r]" and "url_hash r = url_hash c"
      by blast
    with d False show ?thesis by auto
  qed
qed

lemma upsert_listing_ids:
  assumes d: "distinct (map id_col tbl)"
    and u: "upsert_listing st_within areas now fresh_id v tbl = Inr tbl'"
  shows "distinct (map id_col tbl')"
proof -
  from u obtain c where
    br: "(if url_hash c \<in> set (map url_hash tbl)
          then update_listings st_within areas now (where_url_hash (url_hash c))
                 (set_mutable_fields c) tbl
          else insert_listing st_within areas now c tbl) = Inr tbl'"
    by (rule upsert_listing_cases)
  have upd: "url_hash c \<in> set (map url_hash tbl) \<Longrightarrow>
           update_listings st_within areas now (where_url_hash (url_hash c))
             (set_mutable_fields c) tbl = Inr tbl'"
    and ins: "url_hash c \<notin> set (map url_hash tbl) \<Longrightarrow>
           insert_listing st_within areas now c tbl = Inr tbl'"
    using br by (simp_all split: if_splits)
  show ?thesis
  proof (cases "url_hash c \<in> set (map url_hash tbl)")
    case True
    from update_listings_Inr[OF upd[OF True]] show ?thesis by simp
  next
    case False
    from ins[OF False] obtain r where "id_col r \<notin> set (map id_col tbl)" and "tbl' = tbl @ [r]"
      by (auto simp: insert_listing_def split: sum.splits if_splits)
    with d show ?thesis by simp
  qed
qed

text \<open>
  Every row that carries the key of a loaded record was returned by the trigger on a row
  with the values that the statement gave for the record.
\<close>

lemma upsert_listing_row:
  assumes u: "upsert_listing st_within areas now fresh_id v tbl = Inr tbl'"
    and n: "new_listing fresh_id now v = Inr c"
    and r: "r \<in> set tbl'" and k: "url_hash r = url_hash c"
  shows "\<exists>new. has_fields_of c new \<and>
               trigger_update_listing_area st_within areas now new = Inr r"
proof -
  from u obtain c' where c': "new_listing fresh_id now v = Inr c'"
    and br: "(if url_hash c' \<in> set (map url_hash tbl)
          then update_listings st_within areas now (where_url_hash (url_hash c'))
                 (set_mutable_fields c') tbl
          else insert_listing st_within areas now c' tbl) = Inr tbl'"
    by (rule upsert_listing_cases)
  from n c' have cc: "c' = c" by simp
  have upd: "url_hash c \<in> set (map url_hash tbl) \<Longrightarrow>
           update_listings st_within areas now (where_url_hash (url_hash c))
             (set_mutable_fields c) tbl = Inr tbl'"
    and ins: "url_hash c \<notin> set (map url_hash tbl) \<Longrightarrow>
           insert_listing st_within areas now c tbl = Inr tbl'"
    using br by (simp_all add: cc split: if_splits)
  show ?thesis
  proof (cases "url_hash c \<in> set (map url_hash tbl)")
    case True
    from update_listings_Inr[OF upd[OF True]]
    have ur: "update_rows (trigger_update_listing_area st_within areas now)
                (where_url_hash (url_hash c)) (set_mutable_fields c) tbl = Inr tbl'"
      by simp
    from update_rows_selected[OF ur r] k obtain x where
      "trigger_update_listing_area st_within areas now (set_mutable_fields c x) = Inr r"
      by (auto simp: where_url_hash_def)
    with set_mutable_fields_has show ?thesis by blast
  next
    case False
    from insert_listing_Inr[OF ins[OF False]] obtain r0 where
      e: "tbl' = tbl @ [r0]" and
      t: "trigger_update_listing_area st_within areas now c = Inr r0"
      by blast
    from r e k False have "r = r0" by (auto simp: image_iff)
    with t has_fields_of_self show ?thesis by blast
  qed
qed

lemma second_load_succeeds:
  assumes d: "distinct (map url_hash tbl)" and di: "distinct (map id_col tbl)"
    and u1: "upsert_listing st_within areas now1 id1 v tbl = Inr tbl1"
  shows "\<exists>tbl2. upsert_listing st_within areas' now2 id2 v tbl1 = Inr tbl2"
proof -
  from u1 obtain c where c: "new_listing id1 now1 v = Inr c"
    by (rule upsert_listing_cases)
  let ?c2 = "c\<lparr>id_col := id2, scraped_at := Some now2, updated_at := Some now2\<rparr>"
  have c2: "new_listing id2 now2 v = Inr ?c2" using c by (rule new_listing_again)
  have kc: "url_hash ?c2 = url_hash c" by simp
  from upsert_listing_keys[OF d u1 c]
  have d1: "distinct (map url_hash tbl1)" and k1: "url_hash c \<in> set (map url_hash tbl1)"
    by simp_all
  have i1: "distinct (map id_col tbl1)" using di u1 by (rule upsert_listing_ids)
  let ?trg = "trigger_update_listing_area st_within areas' now2"
  have "\<exists>tbl2. update_rows ?trg (where_url_hash (url_hash c)) (set_mutable_fields c) tbl1
                 = Inr tbl2"
  proof (rule update_rows_succeeds)
    fix r
    assume r: "r \<in> set tbl1" and w: "where_url_hash (url_hash c) r"
    from w have "url_hash r = url_hash c" by (simp add: where_url_hash_def)
    from upsert_listing_row[OF u1 c r this] obtain new where
      h: "has_fields_of c new" and
      t: "trigger_update_listing_area st_within areas now1 new = Inr r"
      by blast
    from trigger_keeps_fields[OF t, of c] h have "has_fields_of c r" by simp
    then have "set_mutable_fields c r = r" by (rule set_mutable_fields_same)
    with trigger_again[OF t, of areas' now2]
    show "\<exists>r'. ?trg (set_mutable_fields c r) = Inr r'" by simp
  qed
  then obtain tbl2 where
    ur: "update_rows ?trg (where_url_hash (url_hash c)) (set_mutable_fields c) tbl1
           = Inr tbl2"
    by blast
  have "map url_hash tbl2 = map url_hash tbl1"
  proof (rule update_rows_keys[OF _ _ ur])
    show "\<And>x y. ?trg x = Inr y \<Longrightarrow> url_hash y = url_hash x"
      by (rule trigger_keeps_key)
    show "\<And>x. url_hash (set_mutable_fields c x) = url_hash x"
      by (rule set_mutable_fields_key)
  qed
  moreover have "map id_col tbl2 = map id_col tbl1"
  proof (rule update_rows_ids[OF _ _ ur])
    show "\<And>x y. ?trg x = Inr y \<Longrightarrow> id_col y = id_col x"
      by (rule trigger_keeps_id)
    show "\<And>x. id_col (set_mutable_fields c x) = id_col x"
      by (rule set_mutable_fields_id)
  qed
  ultimately have
    "update_listings st_within areas' now2 (where_url_hash (url_hash c))
       (set_mutable_fields c) tbl1 = Inr tbl2"
    using ur d1 i1 by (simp add: update_listings_def)
  with k1 c2 show ?thesis
    by (simp add: upsert_listing_def and_then_def set_mutable_fields_other_columns)
qed

lemma two_loads_converge:
  assumes d: "distinct (map url_hash tbl)"
    and u1: "upsert_listing st_within areas now1 id1 v1 tbl = Inr tbl1"
    and u2: "upsert_listing st_within areas' now2 id2 v2 tbl1 = Inr tbl2"
    and k: "identity_key v2 = identity_key v1"
  shows "distinct (map url_hash tbl2) \<and> length tbl2 = length tbl1 \<and>
         (\<exists>c r. new_listing id2 now2 v2 = Inr c \<and>
                filter (where_url_hash (url_hash c)) tbl2 = [r] \<and> has_fields_of c r)"
proof -
  from u1 obtain c1 where c1: "new_listing id1 now1 v1 = Inr c1"
    by (rule upsert_listing_cases)
  from u2 obtain c2 where c2: "new_listing id2 now2 v2 = Inr c2"
    and br: "(if url_hash c2 \<in> set (map url_hash tbl1)
          then update_listings st_within areas' now2 (where_url_hash (url_hash c2))
                 (set_mutable_fields c2) tbl1
          else insert_listing st_within areas' now2 c2 tbl1) = Inr tbl2"
    by (rule upsert_listing_cases)
  have upd: "url_hash c2 \<in> set (map url_hash tbl1) \<Longrightarrow>
           update_listings st_within areas' now2 (where_url_hash (url_hash c2))
             (set_mutable_fields c2) tbl1 = Inr tbl2"
    using br by (simp split: if_splits)
  from new_listing_key[OF c1] new_listing_key[OF c2] k
  have kk: "url_hash c2 = url_hash c1" by simp
  from upsert_listing_keys[OF d u1 c1]
  have d1: "distinct (map url_hash tbl1)" and k1: "url_hash c1 \<in> set (map url_hash tbl1)"
    by simp_all
  from upsert_listing_keys[OF d1 u2 c2]
  have d2: "distinct (map url_hash tbl2)" and k2: "url_hash c2 \<in> set (map url_hash tbl2)"
    by simp_all
  from update_listings_Inr[OF upd] k1 kk
  have ur: "update_rows (trigger_update_listing_area st_within areas' now2)
              (where_url_hash (url_hash c2)) (set_mutable_fields c2) tbl1 = Inr tbl2"
    by simp
  from k2 obtain r where r: "r \<in> set tbl2" and kr: "url_hash r = url_hash c2" by auto
  have f: "filter (\<lambda>y. url_hash y = url_hash r) tbl2 = [r]"
    using d2 r by (rule filter_key_single)
  have "where_url_hash (url_hash c2) = (\<lambda>y. url_hash y = url_hash r)"
    using kr by (auto simp: where_url_hash_def)
  with f have f': "filter (where_url_hash (url_hash c2)) tbl2 = [r]" by simp
  have "has_fields_of c2 r"
  proof -
    from update_rows_selected[OF ur r]
    consider x where "x \<in> set tbl1"
      "trigger_update_listing_area st_within areas' now2 (set_mutable_fields c2 x) = Inr r"
      | "\<not> where_url_hash (url_hash c2) r"
      by blast
    then show ?thesis
    proof cases
      case 1
      from trigger_keeps_fields[OF 1(2), of c2] set_mutable_fields_has show ?thesis by simp
    next
      case 2
      with kr show ?thesis by (simp add: where_url_hash_def)
    qed
  qed
  with d2 update_rows_length[OF ur] f' c2 show ?thesis by blast
qed

text \<open>
  C1, as the store has it. Take a store in which no two rows share a \<^verbatim>\<open>url_hash\<close> or an
  \<^verbatim>\<open>id\<close>, and a record whose load succeeds. Loading the same record again succeeds as
  well; and after any second successful load of a record with the same identity key
  (the same record, or the same listing scraped again) the keys are still distinct, no
  row was added, and exactly one row carries the key. Its mutable fields hold the values
  of the second record as coerced to the types of their columns (\<^verbatim>\<open>price\<close> rounded to
  two decimals, \<^verbatim>\<open>area_sqm\<close> to two, \<^verbatim>\<open>bathrooms\<close> to one).
\<close>

theorem upsert_convergence:
  assumes d: "distinct (map url_hash tbl)" and di: "distinct (map id_col tbl)"
    and u1: "upsert_listing st_within areas now1 id1 v1 tbl = Inr tbl1"
  shows "(\<exists>tbl2. upsert_listing st_within areas' now2 id2 v1 tbl1 = Inr tbl2) \<and>
         (\<forall>v2 tbl2. identity_key v2 = identity_key v1 \<and>
                     upsert_listing st_within areas' now2 id2 v2 tbl1 = Inr tbl2
            \<longrightarrow> distinct (map url_hash tbl2) \<and> length tbl2 = length tbl1 \<and>
                (\<exists>c r. new_listing id2 now2 v2 = Inr c \<and>
                       filter (where_url_hash (url_hash c)) tbl2 = [r] \<and>
                       has_fields_of c r))"
  using second_load_succeeds[OF d di u1] two_loads_converge[OF d u1]
  by blast

lemma sample_first_load:
  "upsert_listing never_within no_areas 5 ''0b0e7a52-0001'' sample_record [] = Inr [sample_loaded]"
  by code_simp

lemma sample_second_load:
  "upsert_listing never_within no_areas 8 ''0b0e7a52-0003'' sample_record [sample_loaded]
   = Inr [sample_loaded\<lparr>updated_at := Some 8\<rparr>]"
  by code_simp

lemma sample_new_listing:
  "new_listing ''0b0e7a52-0003'' 8 sample_record
   = Inr (sample_loaded\<lparr>id_col := ''0b0e7a52-0003'', price_per_sqm := None,
            scraped_at := Some 8, updated_at := Some 8\<rparr>)"
  by code_simp

theorem upsert_convergence_witness:
  "distinct (map url_hash ([] :: listings_row list)) \<and>
   distinct (map id_col ([] :: listings_row list)) \<and>
   upsert_listing never_within no_areas 5 ''0b0e7a52-0001'' sample_record [] = Inr [sample_loaded] \<and>
   upsert_listing never_within no_areas 8 ''0b0e7a52-0003'' sample_record [sample_loaded]
     = Inr [sample_loaded\<lparr>updated_at := Some 8\<rparr>] \<and>
   identity_key sample_record = identity_key sample_record \<and>
   distinct (map url_hash [sample_loaded\<lparr>updated_at := Some 8\<rparr>]) \<and>
   length [sample_loaded\<lparr>updated_at := Some 8\<rparr>] = length [sample_loaded] \<and>
   new_listing ''0b0e7a52-0003'' 8 sample_record
     = Inr (sample_loaded\<lparr>id_col := ''0b0e7a52-0003'', price_per_sqm := None,
              scraped_at := Some 8, updated_at := Some 8\<rparr>) \<and>
   filter (where_url_hash ''a1'') [sample_loaded\<lparr>updated_at := Some 8\<rparr>]
     = [sample_loaded\<lparr>updated_at := Some 8\<rparr>] \<and>
   has_fields_of
     (sample_loaded\<lparr>id_col := ''0b0e7a52-0003'', price_per_sqm := None,
        scraped_at := Some 8, updated_at := Some 8\<rparr>)
     (sample_loaded\<lparr>updated_at := Some 8\<rparr>)"
proof -
  have d: "distinct (map url_hash ([] :: listings_row list))"
    and di: "distinct (map id_col ([] :: listings_row list))"
    by simp_all
  have f: "filter (where_url_hash ''a1'') [sample_loaded\<lparr>updated_at := Some 8\<rparr>]
             = [sample_loaded\<lparr>updated_at := Some 8\<rparr>]"
    by (simp add: where_url_hash_def sample_loaded_def sample_listing_def)
  from upsert_convergence[OF d di sample_first_load, of no_areas 8 "''0b0e7a52-0003''"]
    sample_second_load
  obtain c r where
    "new_listing ''0b0e7a52-0003'' 8 sample_record = Inr c"
    and "filter (where_url_hash (url_hash c)) [sample_loaded\<lparr>updated_at := Some 8\<rparr>] = [r]"
    and "has_fields_of c r"
    by blast
  with sample_new_listing f
  have "has_fields_of
     (sample_loaded\<lparr>id_col := ''0b0e7a52-0003'', price_per_sqm := None,
        scraped_at := Some 8, updated_at := Some 8\<rparr>)
     (sample_loaded\<lparr>updated_at := Some 8\<rparr>)"
    by (simp add: sample_loaded_def sample_listing_def)
  then show ?thesis
    using sample_first_load sample_second_load sample_new_listing f by simp
qed

text \<open>
  C1 as stated fails on the values: a record whose area is 83.612736 (900 square feet)
  is stored with \<^verbatim>\<open>area_sqm = 83.61\<close>, by the first load and by the second, so the mutable
  fields of its one row do not end equal to the values of the load.
\<close>

theorem upsert_values_rounded_counterexample:
  "upsert_listing never_within no_areas 5 ''0b0e7a52-0004'' sample_record_sqft []
     = Inr [sample_loaded_sqft\<lparr>id_col := ''0b0e7a52-0004''\<rparr>] \<and>
   upsert_listing never_within no_areas 8 ''0b0e7a52-0005'' sample_record_sqft
       [sample_loaded_sqft\<lparr>id_col := ''0b0e7a52-0004''\<rparr>]
     = Inr [sample_loaded_sqft\<lparr>id_col := ''0b0e7a52-0004'', updated_at := Some 8\<rparr>] \<and>
   area_sqm (sample_loaded_sqft\<lparr>id_col := ''0b0e7a52-0004'', updated_at := Some 8\<rparr>)
     = Some (8361 / 100) \<and>
   rec_area_sqm sample_record_sqft = Some (83612736 / 1000000) \<and>
   \<not> has_values_of sample_record_sqft
       (sample_loaded_sqft\<lparr>id_col := ''0b0e7a52-0004'', updated_at := Some 8\<rparr>)"
  by code_simp

section \<open>Uniqueness of keys after deduplication\<close>

lemma dedupe_insert_keys:
  "set (map identity_key (dedupe_insert c kept)) = insert (identity_key c) (set (map identity_key kept))"
  by (induction kept) auto

lemma dedupe_insert_distinct:
  "distinct (map identity_key kept) \<Longrightarrow> distinct (map identity_key (dedupe_insert c kept))"
proof (induction kept)
  case Nil
  then show ?case by simp
next
  case (Cons i kept)
  show ?case
  proof (cases "identity_key c = identity_key i")
    case True
    with Cons.prems show ?thesis by simp
  next
    case False
    have "identity_key i \<notin> set (map identity_key (dedupe_insert c kept))"
      using Cons.prems False by (simp only: dedupe_insert_keys) auto
    with Cons False show ?thesis by simp
  qed
qed

lemma dedupe_fold_distinct:
  "distinct (map identity_key kept) \<Longrightarrow>
     distinct (map identity_key (foldl (\<lambda>kept c. dedupe_insert c kept) kept recs))"
  by (induction recs arbitrary: kept) (simp_all add: dedupe_insert_distinct)

text \<open>
  C8. For every input sequence, no two records of the Deduplicator's output share an
  identity key.
\<close>

theorem dedupe_records_unique_keys:
  "distinct (map identity_key (dedupe_records recs))"
  by (simp add: dedupe_records_def dedupe_fold_distinct)

lemma sample_dedupe:
  "dedupe_records [sample_record\<lparr>rec_title := None\<rparr>, sample_record,
                   sample_record\<lparr>identity_key := ''a2''\<rparr>]
   = [sample_record, sample_record\<lparr>identity_key := ''a2''\<rparr>]"
  by code_simp

theorem dedupe_records_unique_keys_witness:
  "dedupe_records [sample_record\<lparr>rec_title := None\<rparr>, sample_record,
                   sample_record\<lparr>identity_key := ''a2''\<rparr>]
   = [sample_record, sample_record\<lparr>identity_key := ''a2''\<rparr>] \<and>
   distinct (map identity_key
     (dedupe_records [sample_record\<lparr>rec_title := None\<rparr>, sample_record,
                      sample_record\<lparr>identity_key := ''a2''\<rparr>]))"
  using dedupe_records_unique_keys[of "[sample_record\<lparr>rec_title := None\<rparr>, sample_record,
      sample_record\<lparr>identity_key := ''a2''\<rparr>]"] sample_dedupe
  by simp

section \<open>The read interface when the query fails\<close>

lemma length_mockListings: "length (mockListings now) = 5"
  by (simp add: mockListings_def)

lemma length_mockListings_json: "length (mockListings_json now) = 5"
  by (simp add: mockListings_json_def)

text \<open>
  C10. When the query fails, whatever the error, \<^verbatim>\<open>findAll\<close> resolves to the value
  \<^verbatim>\<open>{ listings: mockListings, total: 5 }\<close> and the Express route answers with status 200
  and the body \<^verbatim>\<open>{ listings: mockListings, total: 5 }\<close>, five entries each. This is the
  shape and the status of the answer to a query that succeeds: the same record types,
  status 200, and \<^verbatim>\<open>total\<close> the number of entries. No field of the answer depends on the
  error.
\<close>

theorem mock_listings_on_query_failure:
  "findAll now (Inl e) = \<lparr>res_listings = mockListings now, res_total = 5\<rparr> \<and>
   length (mockListings now) = 5 \<and>
   get_listings now (Inl e) =
     \<lparr>status_code = 200,
      body = \<lparr>body_listings = mockListings_json now, body_total = 5\<rparr>\<rparr> \<and>
   length (mockListings_json now) = 5 \<and>
   res_total (findAll now (Inr rows)) = length (res_listings (findAll now (Inr rows))) \<and>
   res_total (findAll now (Inl e)) = length (res_listings (findAll now (Inl e))) \<and>
   status_code (get_listings now (Inr rows)) = status_code (get_listings now (Inl e)) \<and>
   body_total (body (get_listings now (Inr rows)))
     = length (body_listings (body (get_listings now (Inr rows)))) \<and>
   body_total (body (get_listings now (Inl e)))
     = length (body_listings (body (get_listings now (Inl e))))"
  by (simp add: findAll_def get_listings_def res_json_def Let_def
      length_mockListings length_mockListings_json)

section \<open>What the Validator guarantees\<close>








end
